theory Spec2Isabelle
  imports Complex_Main
begin

section \<open>The session store API of \<^verbatim>\<open>backend/routers/sessions.py\<close>\<close>

text \<open>
  The router has six handlers over three tables (\<^verbatim>\<open>Session\<close>, \<^verbatim>\<open>SessionSearch\<close>,
  \<^verbatim>\<open>SessionResult\<close>). Each handler is embedded as a function from the store (and the
  request) to a response or an error, together with the store after the call. An
  exception that leaves a handler is a value of \<open>error\<close>: the three
  \<^verbatim>\<open>HTTPException(status_code=404)\<close> of the source, the 422 that the request
  validation answers before a handler runs, and the 500 of any other exception.
\<close>

subsection \<open>Values\<close>

text \<open>An instant (\<^verbatim>\<open>datetime\<close>); the handlers only store and compare instants.\<close>

type_synonym datetime = nat

text \<open>
  \<^verbatim>\<open>Tier = float\<close>. The handlers never compute with a tier: they store it and hand it
  back, so a tier is a number here and no property below depends on rounding.
\<close>

type_synonym Tier = real

datatype error =
    SessionNotFound       \<comment> \<open>404, "Session not found"\<close>
  | SearchNotConfigured   \<comment> \<open>404, "Search not configured for session"\<close>
  | ResultNotFound        \<comment> \<open>404, "Result not found for session"\<close>
  | ValidationError       \<comment> \<open>422, the request does not fit the body model\<close>
  | ServerError           \<comment> \<open>500, an exception no handler catches\<close>

text \<open>The two \<^verbatim>\<open>Literal[...]\<close> types, as the strings they list.\<close>

definition IssueType :: "string list" where
  "IssueType =
     [''seo-issues'', ''missing-title'', ''missing-meta-description'',
      ''missing-h1'', ''slow-performance'']"

definition ResultStatus :: "string list" where
  "ResultStatus = [''pending'', ''completed'', ''error'']"

subsection \<open>Rows of the three tables\<close>

text \<open>
  The fields are the attributes the handlers read and write. \<open>Session_name\<close> is
  \<open>None\<close> when the row object has no attribute \<^verbatim>\<open>name\<close>, the case
  \<^verbatim>\<open>getattr(session, "name", "Untitled session")\<close> provides for.
\<close>

record Session =
  Session_id :: int
  Session_createdAt :: datetime
  Session_name :: "string option"

record SessionSearch =
  Search_id :: int
  Search_sessionId :: int
  Search_query :: string
  Search_issuesFilter :: string
  Search_maxResultsRequested :: int
  Search_status :: string
  Search_checkedWebsitesCount :: int
  Search_lastSearchCursor :: "string option"
  Search_completedAt :: "datetime option"

record SessionResult =
  Result_id :: int
  Result_createdAt :: datetime
  Result_sessionId :: int
  Result_url :: string
  Result_domain :: string
  Result_pageCount :: int
  Result_tier :: Tier
  Result_issuesDetected :: "string option"
  Result_lighthouseJson :: "string option"
  Result_contactEmail :: "string option"
  Result_status :: string

subsection \<open>Request and response models\<close>

record SessionRead =
  SessionRead_id :: int
  SessionRead_created_at :: datetime
  SessionRead_name :: string
  SessionRead_is_configured :: bool
  SessionRead_is_completed :: bool

record SessionSearchCreate =
  SearchCreate_query :: string
  SearchCreate_issues :: "string list"
  SearchCreate_max_results :: int

record SessionSearchRead =
  SearchRead_session_id :: int
  SearchRead_query :: string
  SearchRead_issues :: "string list"
  SearchRead_max_results_requested :: int
  SearchRead_checked_websites_count :: int
  SearchRead_last_search_cursor :: "string option"
  SearchRead_is_completed :: bool

record SessionResultRead =
  ResultRead_id :: int
  ResultRead_created_at :: datetime
  ResultRead_session_id :: int
  ResultRead_url :: string
  ResultRead_domain :: string
  ResultRead_page_count :: int
  ResultRead_tier :: Tier
  ResultRead_issues_detected :: "string list"
  ResultRead_lighthouse_json :: "string option"
  ResultRead_contact_email :: "string option"
  ResultRead_status :: string

record SessionResultUpdate =
  ResultUpdate_tier :: "Tier option"
  ResultUpdate_status :: "string option"

text \<open>
  \<^verbatim>\<open>SessionResultUpdateInput\<close>, the dictionary handed to the store's update: a key that
  is not in the dictionary is \<open>None\<close>.
\<close>

record SessionResultUpdateInput =
  UpdateInput_tier :: "Tier option"
  UpdateInput_status :: "string option"

subsection \<open>\<^verbatim>\<open>json.dumps\<close> and \<^verbatim>\<open>json.loads\<close> on lists of strings\<close>

text \<open>
  \<^verbatim>\<open>json.dumps\<close> with its defaults writes a list as \<^verbatim>\<open>[\<close>, the items separated by a
  comma and a space, \<^verbatim>\<open>]\<close>, and a string between double quotes with the escapes of
  \<^verbatim>\<open>py_encode_basestring_ascii\<close>: backslash and double quote behind a backslash, the
  five named control characters, and \<^verbatim>\<open>\uXXXX\<close> for every other character outside
  \<^verbatim>\<open>' '..'~'\<close>. A \<open>char\<close> is one of the code points below 256.
\<close>

definition hex_digit :: "nat \<Rightarrow> char" where
  "hex_digit d = ''0123456789abcdef'' ! (d mod 16)"

definition escape_char :: "char \<Rightarrow> string" where
  "escape_char c =
     (if c = CHR 0x5C then [CHR 0x5C, CHR 0x5C]
      else if c = CHR 0x22 then [CHR 0x5C, CHR 0x22]
      else if c = CHR 0x08 then [CHR 0x5C, CHR ''b'']
      else if c = CHR 0x0C then [CHR 0x5C, CHR ''f'']
      else if c = CHR 0x0A then [CHR 0x5C, CHR ''n'']
      else if c = CHR 0x0D then [CHR 0x5C, CHR ''r'']
      else if c = CHR 0x09 then [CHR 0x5C, CHR ''t'']
      else if (of_char c :: nat) < 0x20 \<or> 0x7E < (of_char c :: nat)
        then [CHR 0x5C, CHR ''u'', CHR ''0'', CHR ''0'',
              hex_digit (of_char c div 16), hex_digit (of_char c mod 16)]
      else [c])"

definition py_encode_basestring_ascii :: "string \<Rightarrow> string" where
  "py_encode_basestring_ascii s = [CHR 0x22] @ concat (map escape_char s) @ [CHR 0x22]"

fun join :: "string \<Rightarrow> string list \<Rightarrow> string" where
  "join sep [] = []"
| "join sep [x] = x"
| "join sep (x # y # ys) = x @ sep @ join sep (y # ys)"

definition json_dumps :: "string list \<Rightarrow> string" where
  "json_dumps xs = ''['' @ join '', '' (map py_encode_basestring_ascii xs) @ '']''"

text \<open>
  Every value a handler decodes goes straight into a response field of type
  \<^verbatim>\<open>list[IssueType]\<close>, so \<open>json_loads\<close> is the decoder on the documents that can pass
  there: a JSON array of strings, with whitespace where JSON allows it. It is \<open>None\<close>
  where \<^verbatim>\<open>json.loads\<close> raises and where it returns anything else (a number, an object,
  an array with a member that is no string); the handlers answer 500 in both cases.
  The scanner follows \<^verbatim>\<open>scanstring\<close>: a raw control character inside a string is an
  error, the escapes are \<^verbatim>\<open>" \ / b f n r t\<close> and \<^verbatim>\<open>uXXXX\<close> with four hex digits. An
  escape above \<^verbatim>\<open>00ff\<close> has no \<open>char\<close>, and is \<open>None\<close> too: the string Python
  builds there is no issue tag.
\<close>

definition is_ws :: "char \<Rightarrow> bool" where
  "is_ws c \<longleftrightarrow> c = CHR '' '' \<or> c = CHR 0x09 \<or> c = CHR 0x0A \<or> c = CHR 0x0D"

definition hex_value :: "char \<Rightarrow> nat option" where
  "hex_value c =
     (let n = (of_char c :: nat) in
      if 0x30 \<le> n \<and> n \<le> 0x39 then Some (n - 0x30)
      else if 0x61 \<le> n \<and> n \<le> 0x66 then Some (n - 0x61 + 10)
      else if 0x41 \<le> n \<and> n \<le> 0x46 then Some (n - 0x41 + 10)
      else None)"

datatype scan =
    Start | Opened | AfterComma | InString | Escape | Hex nat nat | AfterValue | Closed

text \<open>
  \<open>loads_aux q cur acc s\<close>: the scanner in state \<open>q\<close>, with the characters \<open>cur\<close> of
  the string being read and the strings \<open>acc\<close> read so far, on the rest \<open>s\<close> of the
  document. \<open>Hex k v\<close> has \<open>k\<close> hex digits of an escape still to read and has read
  the value \<open>v\<close>.
\<close>

fun loads_aux :: "scan \<Rightarrow> string \<Rightarrow> string list \<Rightarrow> string \<Rightarrow> string list option" where
  "loads_aux q cur acc [] = (if q = Closed then Some acc else None)"
| "loads_aux Start cur acc (c # cs) =
     (if is_ws c then loads_aux Start cur acc cs
      else if c = CHR ''['' then loads_aux Opened cur acc cs
      else None)"
| "loads_aux Opened cur acc (c # cs) =
     (if is_ws c then loads_aux Opened cur acc cs
      else if c = CHR '']'' then loads_aux Closed cur acc cs
      else if c = CHR 0x22 then loads_aux InString [] acc cs
      else None)"
| "loads_aux AfterComma cur acc (c # cs) =
     (if is_ws c then loads_aux AfterComma cur acc cs
      else if c = CHR 0x22 then loads_aux InString [] acc cs
      else None)"
| "loads_aux InString cur acc (c # cs) =
     (if c = CHR 0x22 then loads_aux AfterValue [] (acc @ [cur]) cs
      else if c = CHR 0x5C then loads_aux Escape cur acc cs
      else if (of_char c :: nat) < 0x20 then None
      else loads_aux InString (cur @ [c]) acc cs)"
| "loads_aux Escape cur acc (c # cs) =
     (if c = CHR 0x22 \<or> c = CHR 0x5C \<or> c = CHR ''/''
        then loads_aux InString (cur @ [c]) acc cs
      else if c = CHR ''b'' then loads_aux InString (cur @ [CHR 0x08]) acc cs
      else if c = CHR ''f'' then loads_aux InString (cur @ [CHR 0x0C]) acc cs
      else if c = CHR ''n'' then loads_aux InString (cur @ [CHR 0x0A]) acc cs
      else if c = CHR ''r'' then loads_aux InString (cur @ [CHR 0x0D]) acc cs
      else if c = CHR ''t'' then loads_aux InString (cur @ [CHR 0x09]) acc cs
      else if c = CHR ''u'' then loads_aux (Hex 4 0) cur acc cs
      else None)"
| "loads_aux (Hex k v) cur acc (c # cs) =
     (case hex_value c of
        None \<Rightarrow> None
      | Some d \<Rightarrow>
          (if k \<le> 1
           then (if 16 * v + d < 256
                 then loads_aux InString (cur @ [char_of (16 * v + d)]) acc cs
                 else None)
           else loads_aux (Hex (k - 1) (16 * v + d)) cur acc cs))"
| "loads_aux AfterValue cur acc (c # cs) =
     (if is_ws c then loads_aux AfterValue cur acc cs
      else if c = CHR '','' then loads_aux AfterComma cur acc cs
      else if c = CHR '']'' then loads_aux Closed cur acc cs
      else None)"
| "loads_aux Closed cur acc (c # cs) =
     (if is_ws c then loads_aux Closed cur acc cs else None)"

definition json_loads :: "string \<Rightarrow> string list option" where
  "json_loads s = loads_aux Start [] [] s"

subsection \<open>The store\<close>

text \<open>
  The handlers reach the tables through \<^verbatim>\<open>db\<close>, the client of \<^verbatim>\<open>backend/db.py\<close>, which
  is not among the sources. The store is the three tables, each a list of rows in
  insertion order, and a journal of the write statements issued so far: a handler that
  "performs no write" leaves the journal, and with it the whole store, as it was.
\<close>

datatype stmt =
    InsertSession int
  | InsertSearch int
  | UpdateSearch int
  | UpdateResult int

record Store =
  sessions :: "Session list"
  searches :: "SessionSearch list"
  results :: "SessionResult list"
  journal :: "stmt list"

text \<open>
  Modelled from the spec: the key the store assigns to a new row (the schema is missing).
  The spec has "\<^verbatim>\<open>id\<close> (surrogate key, server-assigned, monotonic or unique)": the new
  key is one above the largest key of the table, and 1 in an empty table.
\<close>

definition fresh_id :: "int list \<Rightarrow> int" where
  "fresh_id ids = fold max ids 0 + 1"

text \<open>
  Modelled from the spec: \<^verbatim>\<open>db.session.create(data={})\<close> (the client is missing). "Insert
  a new Session row with server-assigned \<^verbatim>\<open>id\<close>/\<^verbatim>\<open>created_at\<close> and default name." The
  instant \<open>now\<close> of the insertion and the schema's default for the name are parameters.
\<close>

definition db_session_create :: "string option \<Rightarrow> datetime \<Rightarrow> Store \<Rightarrow> Session \<times> Store" where
  "db_session_create default_name now st =
     (let session = \<lparr>Session_id = fresh_id (map Session_id (sessions st)),
                      Session_createdAt = now,
                      Session_name = default_name\<rparr>
      in (session,
          st\<lparr>sessions := sessions st @ [session],
             journal := journal st @ [InsertSession (Session_id session)]\<rparr>))"

text \<open>
  Modelled from the spec: the relation a row is read with under
  \<^verbatim>\<open>include={"search": True}\<close>: the Search whose \<^verbatim>\<open>sessionId\<close> is the session's key
  ("\<^verbatim>\<open>session_id\<close> (foreign key, unique)").
\<close>

definition search_of :: "Store \<Rightarrow> int \<Rightarrow> SessionSearch option" where
  "search_of st session_id = find (\<lambda>r. Search_sessionId r = session_id) (searches st)"

text \<open>
  Modelled from the spec: \<^verbatim>\<open>find_many(skip, take, order={"createdAt": "desc"})\<close>. "Fetch
  page ordered by \<^verbatim>\<open>created_at\<close> descending"; "requesting beyond the available range
  yields an empty sequence, not an error". \<^verbatim>\<open>skip\<close> and \<^verbatim>\<open>take\<close> are naturals: the
  handlers declare \<^verbatim>\<open>offset\<close> and \<^verbatim>\<open>limit\<close> as \<^verbatim>\<open>int\<close> and pass them on unchecked, and
  what the store does with a negative one is not written in this repository.
\<close>

definition page :: "('a \<Rightarrow> datetime) \<Rightarrow> nat \<Rightarrow> nat \<Rightarrow> 'a list \<Rightarrow> 'a list" where
  "page created skip take_n rows = take take_n (drop skip (rev (sort_key created rows)))"

definition db_session_find_many ::
  "Store \<Rightarrow> nat \<Rightarrow> nat \<Rightarrow> (Session \<times> SessionSearch option) list" where
  "db_session_find_many st skip take_n =
     map (\<lambda>s. (s, search_of st (Session_id s)))
       (page Session_createdAt skip take_n (sessions st))"

definition db_sessionresult_find_many :: "Store \<Rightarrow> int \<Rightarrow> nat \<Rightarrow> nat \<Rightarrow> SessionResult list" where
  "db_sessionresult_find_many st session_id skip take_n =
     page Result_createdAt skip take_n
       (filter (\<lambda>r. Result_sessionId r = session_id) (results st))"

text \<open>
  Modelled from the spec: \<^verbatim>\<open>find_unique\<close>, the row with the given unique key, or
  \<^verbatim>\<open>None\<close>.
\<close>

definition db_session_find_unique ::
  "Store \<Rightarrow> int \<Rightarrow> (Session \<times> SessionSearch option) option" where
  "db_session_find_unique st session_id =
     map_option (\<lambda>s. (s, search_of st (Session_id s)))
       (find (\<lambda>s. Session_id s = session_id) (sessions st))"

definition db_sessionsearch_find_unique :: "Store \<Rightarrow> int \<Rightarrow> SessionSearch option" where
  "db_sessionsearch_find_unique st session_id = search_of st session_id"

definition db_sessionresult_find_unique :: "Store \<Rightarrow> int \<Rightarrow> SessionResult option" where
  "db_sessionresult_find_unique st result_id =
     find (\<lambda>r. Result_id r = result_id) (results st)"

text \<open>
  Modelled from the spec: \<^verbatim>\<open>db.sessionsearch.create\<close> with the five entries of the
  handler's \<^verbatim>\<open>data\<close>. The worker-owned fields take their defaults
  ("\<^verbatim>\<open>checked_websites_count\<close> defaults to 0 at creation"; the cursor and the completion
  instant are optional and unset). The statement fails, as a store-level failure, when
  the session to connect is missing or already has a Search (\<^verbatim>\<open>session_id\<close> is unique).
\<close>

definition db_sessionsearch_create ::
  "Store \<Rightarrow> int \<Rightarrow> string \<Rightarrow> string \<Rightarrow> int \<Rightarrow> string \<Rightarrow> (error + SessionSearch) \<times> Store" where
  "db_sessionsearch_create st session_id query issuesFilter maxResultsRequested status =
     (if find (\<lambda>s. Session_id s = session_id) (sessions st) = None
         \<or> search_of st session_id \<noteq> None
      then (Inl ServerError, st)
      else
        let search = \<lparr>Search_id = fresh_id (map Search_id (searches st)),
                       Search_sessionId = session_id,
                       Search_query = query,
                       Search_issuesFilter = issuesFilter,
                       Search_maxResultsRequested = maxResultsRequested,
                       Search_status = status,
                       Search_checkedWebsitesCount = 0,
                       Search_lastSearchCursor = None,
                       Search_completedAt = None\<rparr>
        in (Inr search,
            st\<lparr>searches := searches st @ [search],
               journal := journal st @ [InsertSearch (Search_id search)]\<rparr>))"

text \<open>
  Modelled from the spec: \<^verbatim>\<open>db.sessionsearch.update(where={"id": ...}, data=...)\<close> with
  the three entries of the handler's \<^verbatim>\<open>data\<close>: the row with that key gets the three
  values and keeps every other field; the updated row is returned, or \<^verbatim>\<open>None\<close> when no
  row has the key.
\<close>

definition set_search_data :: "string \<Rightarrow> string \<Rightarrow> int \<Rightarrow> SessionSearch \<Rightarrow> SessionSearch" where
  "set_search_data query issuesFilter maxResultsRequested r =
     r\<lparr>Search_query := query,
       Search_issuesFilter := issuesFilter,
       Search_maxResultsRequested := maxResultsRequested\<rparr>"

definition db_sessionsearch_update ::
  "Store \<Rightarrow> int \<Rightarrow> string \<Rightarrow> string \<Rightarrow> int \<Rightarrow> SessionSearch option \<times> Store" where
  "db_sessionsearch_update st search_id query issuesFilter maxResultsRequested =
     (case find (\<lambda>r. Search_id r = search_id) (searches st) of
        None \<Rightarrow> (None, st)
      | Some r \<Rightarrow>
          (Some (set_search_data query issuesFilter maxResultsRequested r),
           st\<lparr>searches :=
                 map (\<lambda>x. if Search_id x = search_id
                           then set_search_data query issuesFilter maxResultsRequested x
                           else x)
                   (searches st),
              journal := journal st @ [UpdateSearch search_id]\<rparr>))"

text \<open>
  Modelled from the spec: \<^verbatim>\<open>db.sessionresult.update(where={"id": ...}, data=...)\<close>: "only
  fields present in the body are written". A key of \<^verbatim>\<open>data\<close> overwrites its column, a
  missing key leaves the column alone.
\<close>

definition set_result_data :: "SessionResultUpdateInput \<Rightarrow> SessionResult \<Rightarrow> SessionResult" where
  "set_result_data data r =
     r\<lparr>Result_tier := (case UpdateInput_tier data of None \<Rightarrow> Result_tier r | Some t \<Rightarrow> t),
       Result_status :=
         (case UpdateInput_status data of None \<Rightarrow> Result_status r | Some s \<Rightarrow> s)\<rparr>"

definition db_sessionresult_update ::
  "Store \<Rightarrow> int \<Rightarrow> SessionResultUpdateInput \<Rightarrow> SessionResult option \<times> Store" where
  "db_sessionresult_update st result_id data =
     (case find (\<lambda>r. Result_id r = result_id) (results st) of
        None \<Rightarrow> (None, st)
      | Some r \<Rightarrow>
          (Some (set_result_data data r),
           st\<lparr>results :=
                 map (\<lambda>x. if Result_id x = result_id then set_result_data data x else x)
                   (results st),
              journal := journal st @ [UpdateResult result_id]\<rparr>))"

text \<open>
  The key constraints of the schema: the primary key \<^verbatim>\<open>id\<close> of each table, the unique
  \<^verbatim>\<open>sessionId\<close> of a Search ("at most one Search per Session"), and the foreign key
  \<^verbatim>\<open>sessionId\<close> of a Search and of a Result.
\<close>

definition wf_store :: "Store \<Rightarrow> bool" where
  "wf_store st \<longleftrightarrow>
     distinct (map Session_id (sessions st)) \<and>
     distinct (map Search_id (searches st)) \<and>
     distinct (map Search_sessionId (searches st)) \<and>
     distinct (map Result_id (results st)) \<and>
     list_all (\<lambda>r. Search_sessionId r \<in> set (map Session_id (sessions st))) (searches st) \<and>
     list_all (\<lambda>r. Result_sessionId r \<in> set (map Session_id (sessions st))) (results st)"

subsection \<open>Building the responses\<close>

text \<open>
  A response object is a pydantic model, and building one validates it: a member of
  \<^verbatim>\<open>issues\<close> or \<^verbatim>\<open>issues_detected\<close> outside \<open>IssueType\<close>, or a \<^verbatim>\<open>status\<close> outside
  \<open>ResultStatus\<close>, raises inside the handler (\<^verbatim>\<open>cast\<close> checks nothing), which is a
  500.
\<close>

definition getattr_name :: "Session \<Rightarrow> string" where
  "getattr_name session =
     (case Session_name session of None \<Rightarrow> ''Untitled session'' | Some n \<Rightarrow> n)"

text \<open>Lines 152 to 161 of \<^verbatim>\<open>upsert_session_search\<close>, and 175 to 184 of
  \<^verbatim>\<open>get_session_search\<close>, which are the same.\<close>

definition search_read :: "SessionSearch \<Rightarrow> error + SessionSearchRead" where
  "search_read search =
     (case json_loads (Search_issuesFilter search) of
        None \<Rightarrow> Inl ServerError
      | Some issues \<Rightarrow>
          if list_all (\<lambda>t. t \<in> set IssueType) issues
          then Inr \<lparr>SearchRead_session_id = Search_sessionId search,
                    SearchRead_query = Search_query search,
                    SearchRead_issues = issues,
                    SearchRead_max_results_requested = Search_maxResultsRequested search,
                    SearchRead_checked_websites_count = Search_checkedWebsitesCount search,
                    SearchRead_last_search_cursor = Search_lastSearchCursor search,
                    SearchRead_is_completed = (Search_completedAt search \<noteq> None)\<rparr>
          else Inl ServerError)"

text \<open>Lines 204 to 221 of \<^verbatim>\<open>list_session_results\<close>, and 255 to 270 of
  \<^verbatim>\<open>update_session_result\<close>, which are the same. A missing and an empty
  \<^verbatim>\<open>issuesDetected\<close> are both false in Python and read as the empty list.\<close>

definition result_read :: "SessionResult \<Rightarrow> error + SessionResultRead" where
  "result_read result =
     (case (case Result_issuesDetected result of
              None \<Rightarrow> Some []
            | Some text \<Rightarrow> if text = [] then Some [] else json_loads text) of
        None \<Rightarrow> Inl ServerError
      | Some issues \<Rightarrow>
          if list_all (\<lambda>t. t \<in> set IssueType) issues
             \<and> Result_status result \<in> set ResultStatus
          then Inr \<lparr>ResultRead_id = Result_id result,
                    ResultRead_created_at = Result_createdAt result,
                    ResultRead_session_id = Result_sessionId result,
                    ResultRead_url = Result_url result,
                    ResultRead_domain = Result_domain result,
                    ResultRead_page_count = Result_pageCount result,
                    ResultRead_tier = Result_tier result,
                    ResultRead_issues_detected = issues,
                    ResultRead_lighthouse_json = Result_lighthouseJson result,
                    ResultRead_contact_email = Result_contactEmail result,
                    ResultRead_status = Result_status result\<rparr>
          else Inl ServerError)"

subsection \<open>The handlers\<close>

definition create_session :: "string option \<Rightarrow> datetime \<Rightarrow> Store \<Rightarrow> SessionRead \<times> Store" where
  "create_session default_name now st =
     (case db_session_create default_name now st of
        (session, st') \<Rightarrow>
          (\<lparr>SessionRead_id = Session_id session,
            SessionRead_created_at = Session_createdAt session,
            SessionRead_name = getattr_name session,
            SessionRead_is_configured = False,
            SessionRead_is_completed = False\<rparr>,
           st'))"

text \<open>The body of the loop of \<^verbatim>\<open>list_sessions\<close>: \<^verbatim>\<open>bool(search and ...)\<close> is false
  without a search, and a row object is true in Python.\<close>

definition session_read :: "Session \<times> SessionSearch option \<Rightarrow> SessionRead" where
  "session_read row =
     (case row of (session, search) \<Rightarrow>
        \<lparr>SessionRead_id = Session_id session,
         SessionRead_created_at = Session_createdAt session,
         SessionRead_name = getattr_name session,
         SessionRead_is_configured = (search \<noteq> None),
         SessionRead_is_completed =
           (case search of None \<Rightarrow> False | Some s \<Rightarrow> Search_completedAt s \<noteq> None)\<rparr>)"

definition list_sessions :: "Store \<Rightarrow> nat \<Rightarrow> nat \<Rightarrow> SessionRead list" where
  "list_sessions st offset limit = map session_read (db_session_find_many st offset limit)"

definition upsert_session_search ::
  "Store \<Rightarrow> int \<Rightarrow> SessionSearchCreate \<Rightarrow> (error + SessionSearchRead) \<times> Store" where
  "upsert_session_search st session_id body =
     (case db_session_find_unique st session_id of
        None \<Rightarrow> (Inl SessionNotFound, st)
      | Some (session, session_search) \<Rightarrow>
          let issues_filter = json_dumps (SearchCreate_issues body) in
          (case session_search of
             None \<Rightarrow>
               (case db_sessionsearch_create st session_id (SearchCreate_query body)
                       issues_filter (SearchCreate_max_results body) ''pending'' of
                  (Inl e, st') \<Rightarrow> (Inl e, st')
                | (Inr search, st') \<Rightarrow> (search_read search, st'))
           | Some existing \<Rightarrow>
               (case db_sessionsearch_update st (Search_id existing) (SearchCreate_query body)
                       issues_filter (SearchCreate_max_results body) of
                  (None, st') \<Rightarrow> (Inl ServerError, st')
                | (Some search, st') \<Rightarrow> (search_read search, st'))))"

definition get_session_search :: "Store \<Rightarrow> int \<Rightarrow> error + SessionSearchRead" where
  "get_session_search st session_id =
     (case db_sessionsearch_find_unique st session_id of
        None \<Rightarrow> Inl SearchNotConfigured
      | Some search \<Rightarrow> search_read search)"

text \<open>The loop of \<^verbatim>\<open>list_session_results\<close>, with \<open>output\<close> the list built so far; the
  first row that cannot be read ends the request.\<close>

fun read_results :: "SessionResultRead list \<Rightarrow> SessionResult list \<Rightarrow> error + SessionResultRead list" where
  "read_results output [] = Inr output"
| "read_results output (result # rest) =
     (case result_read result of
        Inl e \<Rightarrow> Inl e
      | Inr r \<Rightarrow> read_results (output @ [r]) rest)"

definition list_session_results ::
  "Store \<Rightarrow> int \<Rightarrow> nat \<Rightarrow> nat \<Rightarrow> error + SessionResultRead list" where
  "list_session_results st session_id offset limit =
     read_results [] (db_sessionresult_find_many st session_id offset limit)"

definition update_session_result ::
  "Store \<Rightarrow> int \<Rightarrow> int \<Rightarrow> SessionResultUpdate \<Rightarrow> (error + SessionResultRead) \<times> Store" where
  "update_session_result st session_id result_id body =
     (case db_sessionresult_find_unique st result_id of
        None \<Rightarrow> (Inl ResultNotFound, st)
      | Some result \<Rightarrow>
          if Result_sessionId result \<noteq> session_id then (Inl ResultNotFound, st)
          else
            let update_data = \<lparr>UpdateInput_tier = ResultUpdate_tier body,
                               UpdateInput_status = ResultUpdate_status body\<rparr> in
            (case (if UpdateInput_tier update_data \<noteq> None
                      \<or> UpdateInput_status update_data \<noteq> None
                   then db_sessionresult_update st result_id update_data
                   else (Some result, st)) of
               (None, st') \<Rightarrow> (Inl ResultNotFound, st')
             | (Some result', st') \<Rightarrow> (result_read result', st')))"

subsection \<open>The request boundary\<close>

text \<open>
  FastAPI validates a request against the handler's body model before it calls the
  handler, and answers 422 without calling it when the validation fails. A body for
  \<^verbatim>\<open>SessionSearchCreate\<close> arrives as a query, a list of strings and a number; the model
  accepts it when every string is one of \<open>IssueType\<close>.
\<close>

definition put_session_search ::
  "Store \<Rightarrow> int \<Rightarrow> SessionSearchCreate \<Rightarrow> (error + SessionSearchRead) \<times> Store" where
  "put_session_search st session_id body =
     (if list_all (\<lambda>t. t \<in> set IssueType) (SearchCreate_issues body)
      then upsert_session_search st session_id body
      else (Inl ValidationError, st))"

text \<open>
  A field of a JSON body for \<^verbatim>\<open>SessionResultUpdate\<close> is missing, \<^verbatim>\<open>null\<close>, or a value.
  Both fields are \<^verbatim>\<open>Optional[...] = None\<close>: a missing field takes the default
  \<^verbatim>\<open>None\<close>, and \<^verbatim>\<open>null\<close> is \<^verbatim>\<open>None\<close>.
\<close>

datatype 'a json_field = Missing | Null | Value 'a

record SessionResultUpdate_json =
  json_tier :: "Tier json_field"
  json_status :: "string json_field"

definition field_value :: "'a json_field \<Rightarrow> 'a option" where
  "field_value f = (case f of Missing \<Rightarrow> None | Null \<Rightarrow> None | Value v \<Rightarrow> Some v)"

definition parse_SessionResultUpdate :: "SessionResultUpdate_json \<Rightarrow> error + SessionResultUpdate" where
  "parse_SessionResultUpdate raw =
     (case field_value (json_status raw) of
        None \<Rightarrow> Inr \<lparr>ResultUpdate_tier = field_value (json_tier raw), ResultUpdate_status = None\<rparr>
      | Some s \<Rightarrow>
          if s \<in> set ResultStatus
          then Inr \<lparr>ResultUpdate_tier = field_value (json_tier raw), ResultUpdate_status = Some s\<rparr>
          else Inl ValidationError)"

definition patch_session_result ::
  "Store \<Rightarrow> int \<Rightarrow> int \<Rightarrow> SessionResultUpdate_json \<Rightarrow> (error + SessionResultRead) \<times> Store" where
  "patch_session_result st session_id result_id raw =
     (case parse_SessionResultUpdate raw of
        Inl e \<Rightarrow> (Inl e, st)
      | Inr body \<Rightarrow> update_session_result st session_id result_id body)"

subsection \<open>A store to run the handlers on\<close>

text \<open>
  Three sessions: session 1 has no Search; session 2 has a completed Search that the
  worker has advanced, and two Results; session 3 has a Search that is not completed.
\<close>

definition demo_search :: SessionSearch where
  "demo_search =
     \<lparr>Search_id = 1, Search_sessionId = 2, Search_query = ''plumbers'',
      Search_issuesFilter = ''['' @ [CHR 0x22] @ ''missing-title'' @ [CHR 0x22] @ '']'',
      Search_maxResultsRequested = 20, Search_status = ''pending'',
      Search_checkedWebsitesCount = 5, Search_lastSearchCursor = Some ''page-2'',
      Search_completedAt = Some 25\<rparr>"

definition demo_result :: SessionResult where
  "demo_result =
     \<lparr>Result_id = 7, Result_createdAt = 22, Result_sessionId = 2,
      Result_url = ''https://a.example/'', Result_domain = ''a.example'',
      Result_pageCount = 4, Result_tier = 2,
      Result_issuesDetected =
        Some (''['' @ [CHR 0x22] @ ''missing-h1'' @ [CHR 0x22] @ '', ''
              @ [CHR 0x22] @ ''missing-h1'' @ [CHR 0x22] @ '']''),
      Result_lighthouseJson = None, Result_contactEmail = Some ''info@a.example'',
      Result_status = ''pending''\<rparr>"

definition demo_store :: Store where
  "demo_store =
     \<lparr>sessions =
        [\<lparr>Session_id = 1, Session_createdAt = 10, Session_name = None\<rparr>,
         \<lparr>Session_id = 2, Session_createdAt = 20, Session_name = Some ''Plumbers''\<rparr>,
         \<lparr>Session_id = 3, Session_createdAt = 30, Session_name = None\<rparr>],
      searches =
        [demo_search,
         \<lparr>Search_id = 2, Search_sessionId = 3, Search_query = ''bakers'',
          Search_issuesFilter = ''[]'', Search_maxResultsRequested = 5,
          Search_status = ''pending'', Search_checkedWebsitesCount = 0,
          Search_lastSearchCursor = None, Search_completedAt = None\<rparr>],
      results =
        [demo_result,
         \<lparr>Result_id = 8, Result_createdAt = 23, Result_sessionId = 2,
          Result_url = ''https://b.example/'', Result_domain = ''b.example'',
          Result_pageCount = 1, Result_tier = 1, Result_issuesDetected = None,
          Result_lighthouseJson = None, Result_contactEmail = None,
          Result_status = ''completed''\<rparr>],
      journal = []\<rparr>"

section \<open>Facts about the codec and the store\<close>

subsection \<open>Decoding what \<open>json_dumps\<close> wrote\<close>

lemma hex_value_hex_digit: "d < 16 \<Longrightarrow> hex_value (hex_digit d) = Some d"
proof -
  assume "d < 16"
  then have "d \<in> {0,1,2,3,4,5,6,7,8,9,10,11,12,13,14,15}"
    by (simp only: insert_iff empty_iff) arith
  then show ?thesis
    by (auto simp: hex_digit_def hex_value_def)
qed

lemma hex_value_zero: "hex_value CHR ''0'' = Some 0"
  by (simp add: hex_value_def)

lemma loads_unicode_escape:
  "loads_aux InString cur acc
     ([CHR 0x5C, CHR ''u'', CHR ''0'', CHR ''0'',
       hex_digit (of_char c div 16), hex_digit (of_char c mod 16)] @ rest)
   = loads_aux InString (cur @ [c]) acc rest"
proof -
  have lt: "(of_char c :: nat) < 256" by simp
  have d1: "(of_char c :: nat) div 16 < 16" using lt by arith
  have d2: "(of_char c :: nat) mod 16 < 16" by simp
  have glue: "char_of (16 * ((of_char c :: nat) div 16) + of_char c mod 16) = c"
    by simp
  have small: "16 * ((of_char c :: nat) div 16) + of_char c mod 16 < 256"
    using lt by simp
  show ?thesis
    using small
    by (simp add: hex_value_zero hex_value_hex_digit [OF d1] hex_value_hex_digit [OF d2] glue)
qed

lemma loads_escape_char:
  "loads_aux InString cur acc (escape_char c @ rest) = loads_aux InString (cur @ [c]) acc rest"
proof (cases "c = CHR 0x5C \<or> c = CHR 0x22 \<or> c = CHR 0x08 \<or> c = CHR 0x0C
    \<or> c = CHR 0x0A \<or> c = CHR 0x0D \<or> c = CHR 0x09")
  case True
  then show ?thesis by (auto simp: escape_char_def)
next
  case named: False
  show ?thesis
  proof (cases "(of_char c :: nat) < 0x20 \<or> 0x7E < (of_char c :: nat)")
    case True
    then have "escape_char c = [CHR 0x5C, CHR ''u'', CHR ''0'', CHR ''0'',
       hex_digit (of_char c div 16), hex_digit (of_char c mod 16)]"
      using named by (simp add: escape_char_def)
    then show ?thesis by (simp only: loads_unicode_escape)
  next
    case False
    then show ?thesis using named by (simp add: escape_char_def)
  qed
qed

lemma loads_escaped:
  "loads_aux InString cur acc (concat (map escape_char s) @ rest)
   = loads_aux InString (cur @ s) acc rest"
  by (induction s arbitrary: cur) (simp_all add: loads_escape_char)

lemma loads_string:
  "loads_aux InString [] acc (tl (py_encode_basestring_ascii s) @ rest)
   = loads_aux AfterValue [] (acc @ [s]) rest"
  by (simp add: py_encode_basestring_ascii_def loads_escaped)

lemma loads_items:
  "loads_aux InString [] acc
     (tl (join '', '' (map py_encode_basestring_ascii (x # xs))) @ '']'')
   = Some (acc @ x # xs)"
proof (induction xs arbitrary: x acc)
  case Nil
  then show ?case using loads_string [of acc x "'']''"] by (simp add: is_ws_def)
next
  case (Cons y ys)
  have "tl (join '', '' (map py_encode_basestring_ascii (x # y # ys))) @ '']''
      = tl (py_encode_basestring_ascii x) @ '', '' @ [CHR 0x22]
        @ (tl (join '', '' (map py_encode_basestring_ascii (y # ys))) @ '']'')"
    by (cases ys) (simp_all add: py_encode_basestring_ascii_def)
  then show ?case
    using Cons.IH [of "acc @ [x]" y] by (simp add: loads_string is_ws_def)
qed

lemma json_loads_dumps: "json_loads (json_dumps xs) = Some xs"
proof (cases xs)
  case Nil
  then show ?thesis by (simp add: json_loads_def json_dumps_def is_ws_def)
next
  case (Cons x ys)
  have "json_dumps (x # ys) = ''['' @ [CHR 0x22]
      @ (tl (join '', '' (map py_encode_basestring_ascii (x # ys))) @ '']'')"
    by (cases ys) (simp_all add: json_dumps_def py_encode_basestring_ascii_def)
  then show ?thesis
    using Cons loads_items [of "[]" x ys] by (simp add: json_loads_def is_ws_def)
qed

subsection \<open>Looking a row up by a key\<close>

lemma find_mem: "find P xs = Some x \<Longrightarrow> x \<in> set xs \<and> P x"
  by (induction xs) (auto split: if_splits)

lemma find_none: "\<forall>x \<in> set xs. \<not> P x \<Longrightarrow> find P xs = None"
  by (induction xs) auto

lemma find_key:
  "distinct (map f xs) \<Longrightarrow> x \<in> set xs \<Longrightarrow> find (\<lambda>r. f r = f x) xs = Some x"
  by (induction xs) (auto simp: rev_image_eqI)

lemma find_map_same:
  "(\<And>x. P (g x) = P x) \<Longrightarrow> find P (map g xs) = map_option g (find P xs)"
  by (induction xs) auto

subsection \<open>A fresh key is new\<close>

lemma fold_max_ge: "b \<le> fold max xs (b::int)"
  by (induction xs arbitrary: b) (auto intro: order_trans [OF max.cobounded2])

lemma fold_max_upper: "x \<in> set xs \<Longrightarrow> x \<le> fold max xs (b::int)"
proof (induction xs arbitrary: b)
  case Nil
  then show ?case by simp
next
  case (Cons y ys)
  show ?case
  proof (cases "x = y")
    case True
    have "y \<le> max y b" by simp
    also have "\<dots> \<le> fold max ys (max y b)" by (rule fold_max_ge)
    finally show ?thesis using True by simp
  next
    case False
    then have "x \<in> set ys" using Cons.prems by simp
    then show ?thesis using Cons.IH by simp
  qed
qed

lemma fresh_id_new: "fresh_id ids \<notin> set ids"
proof
  assume "fresh_id ids \<in> set ids"
  then have "fresh_id ids \<le> fold max ids 0" by (rule fold_max_upper)
  then show False by (simp add: fresh_id_def)
qed

subsection \<open>The demo store, and the store after a patch\<close>

lemma wf_store_demo: "wf_store demo_store"
  by (simp add: wf_store_def demo_store_def demo_search_def demo_result_def)

lemma update_session_result_found:
  assumes "distinct (map Result_id (results st))" and "r \<in> set (results st)"
    and "Result_sessionId r = session_id"
  shows "update_session_result st session_id (Result_id r) body =
     (if ResultUpdate_tier body = None \<and> ResultUpdate_status body = None
      then (result_read r, st)
      else (result_read
              (set_result_data \<lparr>UpdateInput_tier = ResultUpdate_tier body,
                                UpdateInput_status = ResultUpdate_status body\<rparr> r),
            st\<lparr>results :=
                 map (\<lambda>x. if Result_id x = Result_id r
                           then set_result_data \<lparr>UpdateInput_tier = ResultUpdate_tier body,
                                  UpdateInput_status = ResultUpdate_status body\<rparr> x
                           else x) (results st),
               journal := journal st @ [UpdateResult (Result_id r)]\<rparr>))"
proof -
  have "find (\<lambda>x. Result_id x = Result_id r) (results st) = Some r"
    using assms(1,2) by (rule find_key)
  then show ?thesis
    using assms(3)
    by (simp add: update_session_result_def db_sessionresult_find_unique_def
        db_sessionresult_update_def Let_def)
qed

lemma result_read_demo:
  "result_read demo_result =
     Inr \<lparr>ResultRead_id = 7, ResultRead_created_at = 22, ResultRead_session_id = 2,
          ResultRead_url = ''https://a.example/'', ResultRead_domain = ''a.example'',
          ResultRead_page_count = 4, ResultRead_tier = 2,
          ResultRead_issues_detected = [''missing-h1'', ''missing-h1''],
          ResultRead_lighthouse_json = None,
          ResultRead_contact_email = Some ''info@a.example'',
          ResultRead_status = ''pending''\<rparr>"
  by (simp add: result_read_def demo_result_def json_loads_def is_ws_def IssueType_def
      ResultStatus_def)

lemma update_session_result_store:
  "snd (update_session_result st session_id result_id body) = st \<or>
   snd (update_session_result st session_id result_id body) =
     st\<lparr>results :=
          map (\<lambda>x. if Result_id x = result_id
                    then set_result_data \<lparr>UpdateInput_tier = ResultUpdate_tier body,
                           UpdateInput_status = ResultUpdate_status body\<rparr> x
                    else x) (results st),
        journal := journal st @ [UpdateResult result_id]\<rparr>"
proof (cases "find (\<lambda>r. Result_id r = result_id) (results st)")
  case None
  then show ?thesis
    by (simp add: update_session_result_def db_sessionresult_find_unique_def)
next
  case (Some r)
  then show ?thesis
    by (simp add: update_session_result_def db_sessionresult_find_unique_def
        db_sessionresult_update_def Let_def)
qed

lemma update_keeps_tiers:
  assumes "ResultUpdate_tier body = None"
  shows "map Result_tier (results (snd (update_session_result st session_id result_id body)))
   = map Result_tier (results st)"
  using update_session_result_store [of st session_id result_id body]
proof
  assume "snd (update_session_result st session_id result_id body) = st"
  then show ?thesis by simp
next
  assume "snd (update_session_result st session_id result_id body) =
     st\<lparr>results :=
          map (\<lambda>x. if Result_id x = result_id
                    then set_result_data \<lparr>UpdateInput_tier = ResultUpdate_tier body,
                           UpdateInput_status = ResultUpdate_status body\<rparr> x
                    else x) (results st),
        journal := journal st @ [UpdateResult result_id]\<rparr>"
  then show ?thesis
    using assms by (simp add: set_result_data_def)
qed

lemma update_keeps_statuses:
  assumes "ResultUpdate_status body = None"
  shows "map Result_status (results (snd (update_session_result st session_id result_id body)))
   = map Result_status (results st)"
  using update_session_result_store [of st session_id result_id body]
proof
  assume "snd (update_session_result st session_id result_id body) = st"
  then show ?thesis by simp
next
  assume "snd (update_session_result st session_id result_id body) =
     st\<lparr>results :=
          map (\<lambda>x. if Result_id x = result_id
                    then set_result_data \<lparr>UpdateInput_tier = ResultUpdate_tier body,
                           UpdateInput_status = ResultUpdate_status body\<rparr> x
                    else x) (results st),
        journal := journal st @ [UpdateResult result_id]\<rparr>"
  then show ?thesis
    using assms by (simp add: set_result_data_def)
qed

lemma parse_tier_null:
  "parse_SessionResultUpdate (raw\<lparr>json_tier := Null\<rparr>)
   = parse_SessionResultUpdate (raw\<lparr>json_tier := Missing\<rparr>)"
  by (cases "json_status raw") (simp_all add: parse_SessionResultUpdate_def field_value_def)

lemma parse_status_null:
  "parse_SessionResultUpdate (raw\<lparr>json_status := Null\<rparr>)
   = parse_SessionResultUpdate (raw\<lparr>json_status := Missing\<rparr>)"
  by (simp add: parse_SessionResultUpdate_def field_value_def)

lemma parse_tier_null_body:
  "parse_SessionResultUpdate (raw\<lparr>json_tier := Null\<rparr>) = Inr body \<Longrightarrow>
   ResultUpdate_tier body = None"
  by (auto simp: parse_SessionResultUpdate_def field_value_def split: option.splits if_splits)

lemma parse_status_null_body:
  "parse_SessionResultUpdate (raw\<lparr>json_status := Null\<rparr>) = Inr body \<Longrightarrow>
   ResultUpdate_status body = None"
  by (auto simp: parse_SessionResultUpdate_def field_value_def split: option.splits if_splits)

lemma search_of_iff:
  assumes "distinct (map Search_sessionId (searches st))"
  shows "search_of st sid = Some s \<longleftrightarrow> s \<in> set (searches st) \<and> Search_sessionId s = sid"
proof
  assume "search_of st sid = Some s"
  then show "s \<in> set (searches st) \<and> Search_sessionId s = sid"
    unfolding search_of_def by (auto dest: find_mem)
next
  assume "s \<in> set (searches st) \<and> Search_sessionId s = sid"
  then show "search_of st sid = Some s"
    unfolding search_of_def using find_key [OF assms, of s] by auto
qed

lemma search_of_None_iff:
  "search_of st sid = None \<longleftrightarrow> (\<forall>s \<in> set (searches st). Search_sessionId s \<noteq> sid)"
  by (auto simp: search_of_def find_None_iff)

lemma page_beyond: "length rows \<le> skip \<Longrightarrow> page created skip take_n rows = []"
  by (simp add: page_def)

subsection \<open>The two branches of the upsert\<close>

lemma find_session:
  "sid \<in> set (map Session_id ss) \<Longrightarrow>
   \<exists>sess. find (\<lambda>s. Session_id s = sid) ss = Some sess \<and> Session_id sess = sid"
  by (induction ss) auto

lemma find_append_new:
  "find P xs = None \<Longrightarrow> P y \<Longrightarrow> find P (xs @ [y]) = Some y"
  by (induction xs) (auto split: if_splits)

lemma search_read_written:
  assumes "list_all (\<lambda>t. t \<in> set IssueType) issues"
    and "Search_issuesFilter search = json_dumps issues"
  shows "search_read search =
     Inr \<lparr>SearchRead_session_id = Search_sessionId search,
          SearchRead_query = Search_query search,
          SearchRead_issues = issues,
          SearchRead_max_results_requested = Search_maxResultsRequested search,
          SearchRead_checked_websites_count = Search_checkedWebsitesCount search,
          SearchRead_last_search_cursor = Search_lastSearchCursor search,
          SearchRead_is_completed = (Search_completedAt search \<noteq> None)\<rparr>"
  using assms by (simp add: search_read_def json_loads_dumps)

lemma upsert_existing:
  assumes "distinct (map Search_id (searches st))"
    and "session_id \<in> set (map Session_id (sessions st))"
    and "search_of st session_id = Some existing"
  shows "upsert_session_search st session_id body =
     (search_read (set_search_data (SearchCreate_query body)
          (json_dumps (SearchCreate_issues body)) (SearchCreate_max_results body) existing),
      st\<lparr>searches :=
           map (\<lambda>x. if Search_id x = Search_id existing
                     then set_search_data (SearchCreate_query body)
                            (json_dumps (SearchCreate_issues body))
                            (SearchCreate_max_results body) x
                     else x) (searches st),
         journal := journal st @ [UpdateSearch (Search_id existing)]\<rparr>)"
proof -
  obtain sess where sess: "find (\<lambda>s. Session_id s = session_id) (sessions st) = Some sess"
      "Session_id sess = session_id"
    using find_session [OF assms(2)] by blast
  have "existing \<in> set (searches st)"
    using assms(3) unfolding search_of_def by (auto dest: find_mem)
  then have f: "find (\<lambda>r. Search_id r = Search_id existing) (searches st) = Some existing"
    using assms(1) by (intro find_key)
  show ?thesis
    using sess assms(3) f
    by (simp add: upsert_session_search_def db_session_find_unique_def
        db_sessionsearch_update_def Let_def)
qed

lemma upsert_new:
  assumes "session_id \<in> set (map Session_id (sessions st))"
    and "search_of st session_id = None"
  shows "upsert_session_search st session_id body =
     (search_read
        \<lparr>Search_id = fresh_id (map Search_id (searches st)),
         Search_sessionId = session_id,
         Search_query = SearchCreate_query body,
         Search_issuesFilter = json_dumps (SearchCreate_issues body),
         Search_maxResultsRequested = SearchCreate_max_results body,
         Search_status = ''pending'',
         Search_checkedWebsitesCount = 0,
         Search_lastSearchCursor = None,
         Search_completedAt = None\<rparr>,
      st\<lparr>searches := searches st @
           [\<lparr>Search_id = fresh_id (map Search_id (searches st)),
             Search_sessionId = session_id,
             Search_query = SearchCreate_query body,
             Search_issuesFilter = json_dumps (SearchCreate_issues body),
             Search_maxResultsRequested = SearchCreate_max_results body,
             Search_status = ''pending'',
             Search_checkedWebsitesCount = 0,
             Search_lastSearchCursor = None,
             Search_completedAt = None\<rparr>],
         journal := journal st @ [InsertSearch (fresh_id (map Search_id (searches st)))]\<rparr>)"
proof -
  obtain sess where sess: "find (\<lambda>s. Session_id s = session_id) (sessions st) = Some sess"
      "Session_id sess = session_id"
    using find_session [OF assms(1)] by blast
  show ?thesis
    using sess assms(2)
    by (simp add: upsert_session_search_def db_session_find_unique_def
        db_sessionsearch_create_def Let_def)
qed

lemma search_of_after_update:
  assumes "search_of st session_id = Some existing"
  shows "search_of
     (st\<lparr>searches := map (\<lambda>x. if Search_id x = i then set_search_data q f m x else x) (searches st),
         journal := j\<rparr>) session_id
   = Some (if Search_id existing = i then set_search_data q f m existing else existing)"
proof -
  have "find (\<lambda>r. Search_sessionId r = session_id)
      (map (\<lambda>x. if Search_id x = i then set_search_data q f m x else x) (searches st))
    = map_option (\<lambda>x. if Search_id x = i then set_search_data q f m x else x)
        (find (\<lambda>r. Search_sessionId r = session_id) (searches st))"
    by (rule find_map_same) (simp add: set_search_data_def)
  then show ?thesis
    using assms by (simp add: search_of_def)
qed

lemma search_of_after_create:
  assumes "search_of st session_id = None" and "Search_sessionId new = session_id"
  shows "search_of (st\<lparr>searches := searches st @ [new], journal := j\<rparr>) session_id = Some new"
  using assms by (simp add: search_of_def find_append_new)


lemma filter_key:
  "distinct (map f xs) \<Longrightarrow> x \<in> set xs \<Longrightarrow> filter (\<lambda>r. f r = f x) xs = [x]"
proof (induction xs)
  case Nil
  then show ?case by simp
next
  case (Cons y ys)
  show ?case
  proof (cases "x = y")
    case True
    have "\<forall>r \<in> set ys. f r \<noteq> f y" using Cons.prems(1) by (auto simp: rev_image_eqI)
    then have "filter (\<lambda>r. f r = f y) ys = []" by (simp add: filter_empty_conv)
    then show ?thesis using True by simp
  next
    case False
    then have "x \<in> set ys" using Cons.prems(2) by simp
    moreover have "f y \<noteq> f x"
      using Cons.prems(1) \<open>x \<in> set ys\<close> by (auto simp: rev_image_eqI)
    ultimately show ?thesis using Cons by simp
  qed
qed

lemma filter_map_same:
  "(\<And>x. P (g x) = P x) \<Longrightarrow> filter P (map g xs) = map g (filter P xs)"
  by (induction xs) auto

subsection \<open>The handlers keep the key constraints\<close>

text \<open>
  The properties below are stated for a store that satisfies \<open>wf_store\<close>. The empty
  store does, and every handler that writes hands back a store that does.
\<close>

lemma wf_store_empty: "wf_store \<lparr>sessions = [], searches = [], results = [], journal = []\<rparr>"
  by (simp add: wf_store_def)

lemma wf_store_same_keys:
  assumes "wf_store st"
    and "map Session_id (sessions st') = map Session_id (sessions st)"
    and "map Search_id (searches st') = map Search_id (searches st)"
    and "map Search_sessionId (searches st') = map Search_sessionId (searches st)"
    and "map Result_id (results st') = map Result_id (results st)"
    and "map Result_sessionId (results st') = map Result_sessionId (results st)"
  shows "wf_store st'"
proof -
  have fk: "list_all (\<lambda>r. f r \<in> S) xs \<longleftrightarrow> set (map f xs) \<subseteq> S" for f :: "'a \<Rightarrow> int" and S xs
    by (auto simp: list_all_iff)
  show ?thesis
    using assms unfolding wf_store_def fk by simp
qed

lemma wf_store_create_session:
  assumes "wf_store st"
  shows "wf_store (snd (create_session default_name now st))"
proof -
  have new: "fresh_id (map Session_id (sessions st)) \<notin> set (map Session_id (sessions st))"
    by (rule fresh_id_new)
  show ?thesis
    using assms new
    by (auto simp: wf_store_def create_session_def db_session_create_def Let_def list_all_iff)
qed

lemma wf_store_upsert_session_search:
  assumes "wf_store st"
  shows "wf_store (snd (upsert_session_search st session_id body))"
proof (cases "session_id \<in> set (map Session_id (sessions st))")
  case False
  then have "find (\<lambda>s. Session_id s = session_id) (sessions st) = None"
    by (intro find_none) auto
  then show ?thesis
    using assms by (simp add: upsert_session_search_def db_session_find_unique_def)
next
  case True
  show ?thesis
  proof (cases "search_of st session_id")
    case None
    have fresh: "fresh_id (map Search_id (searches st)) \<notin> set (map Search_id (searches st))"
      by (rule fresh_id_new)
    have free: "session_id \<notin> set (map Search_sessionId (searches st))"
      using None by (auto simp: search_of_def find_None_iff)
    show ?thesis
      using assms fresh free True
      by (simp add: upsert_new [OF True None] wf_store_def list_all_iff)
  next
    case (Some existing)
    have ids: "distinct (map Search_id (searches st))"
      using assms by (simp add: wf_store_def)
    show ?thesis
      by (rule wf_store_same_keys [OF assms])
        (simp_all add: upsert_existing [OF ids True Some] set_search_data_def)
  qed
qed

lemma wf_store_update_session_result:
  assumes "wf_store st"
  shows "wf_store (snd (update_session_result st session_id result_id body))"
  using update_session_result_store [of st session_id result_id body]
proof
  assume "snd (update_session_result st session_id result_id body) = st"
  then show ?thesis using assms by simp
next
  assume after: "snd (update_session_result st session_id result_id body) =
     st\<lparr>results :=
          map (\<lambda>x. if Result_id x = result_id
                    then set_result_data \<lparr>UpdateInput_tier = ResultUpdate_tier body,
                           UpdateInput_status = ResultUpdate_status body\<rparr> x
                    else x) (results st),
        journal := journal st @ [UpdateResult result_id]\<rparr>"
  show ?thesis
    by (rule wf_store_same_keys [OF assms]) (simp_all add: after set_result_data_def)
qed

section \<open>The properties of the handlers\<close>

text \<open>
  C1. On a store that keeps the key constraints, a \<^verbatim>\<open>PUT /sessions/{id}/search\<close> with
  an accepted body for a session that already has a Search creates no second row: the
  session has exactly one Search row afterwards, the row it had with \<^verbatim>\<open>query\<close>,
  \<^verbatim>\<open>issuesFilter\<close> and \<^verbatim>\<open>maxResultsRequested\<close> replaced by the body's values and
  every other field, the worker-owned \<^verbatim>\<open>checkedWebsitesCount\<close>, \<^verbatim>\<open>lastSearchCursor\<close>
  and \<^verbatim>\<open>completedAt\<close> among them, as before; every other row and table is untouched,
  and the response carries the worker-owned values of the old row. The first upsert,
  for a session without a Search, leaves exactly one row too, with the worker-owned
  fields at their creation defaults.
\<close>

theorem put_session_search_frame:
  assumes "wf_store st" and "session_id \<in> set (map Session_id (sessions st))"
    and "list_all (\<lambda>t. t \<in> set IssueType) (SearchCreate_issues body)"
  shows "(\<forall>existing. search_of st session_id = Some existing \<longrightarrow>
            put_session_search st session_id body =
              (Inr \<lparr>SearchRead_session_id = session_id,
                    SearchRead_query = SearchCreate_query body,
                    SearchRead_issues = SearchCreate_issues body,
                    SearchRead_max_results_requested = SearchCreate_max_results body,
                    SearchRead_checked_websites_count = Search_checkedWebsitesCount existing,
                    SearchRead_last_search_cursor = Search_lastSearchCursor existing,
                    SearchRead_is_completed = (Search_completedAt existing \<noteq> None)\<rparr>,
               st\<lparr>searches :=
                    map (\<lambda>x. if Search_id x = Search_id existing
                              then x\<lparr>Search_query := SearchCreate_query body,
                                     Search_issuesFilter := json_dumps (SearchCreate_issues body),
                                     Search_maxResultsRequested := SearchCreate_max_results body\<rparr>
                              else x) (searches st),
                  journal := journal st @ [UpdateSearch (Search_id existing)]\<rparr>)
          \<and> filter (\<lambda>r. Search_sessionId r = session_id)
               (searches (snd (put_session_search st session_id body)))
             = [existing\<lparr>Search_query := SearchCreate_query body,
                         Search_issuesFilter := json_dumps (SearchCreate_issues body),
                         Search_maxResultsRequested := SearchCreate_max_results body\<rparr>])
       \<and> (search_of st session_id = None \<longrightarrow>
            filter (\<lambda>r. Search_sessionId r = session_id)
               (searches (snd (put_session_search st session_id body)))
             = [\<lparr>Search_id = fresh_id (map Search_id (searches st)),
                 Search_sessionId = session_id,
                 Search_query = SearchCreate_query body,
                 Search_issuesFilter = json_dumps (SearchCreate_issues body),
                 Search_maxResultsRequested = SearchCreate_max_results body,
                 Search_status = ''pending'',
                 Search_checkedWebsitesCount = 0,
                 Search_lastSearchCursor = None,
                 Search_completedAt = None\<rparr>])"
proof (intro conjI allI impI)
  fix existing
  assume found: "search_of st session_id = Some existing"
  have ids: "distinct (map Search_id (searches st))"
    and keys: "distinct (map Search_sessionId (searches st))"
    using assms(1) by (simp_all add: wf_store_def)
  have mem: "existing \<in> set (searches st)" and key: "Search_sessionId existing = session_id"
    using found unfolding search_of_def by (auto dest: find_mem)
  have resp: "search_read (set_search_data (SearchCreate_query body)
          (json_dumps (SearchCreate_issues body)) (SearchCreate_max_results body) existing)
      = Inr \<lparr>SearchRead_session_id = session_id,
                    SearchRead_query = SearchCreate_query body,
                    SearchRead_issues = SearchCreate_issues body,
                    SearchRead_max_results_requested = SearchCreate_max_results body,
                    SearchRead_checked_websites_count = Search_checkedWebsitesCount existing,
                    SearchRead_last_search_cursor = Search_lastSearchCursor existing,
                    SearchRead_is_completed = (Search_completedAt existing \<noteq> None)\<rparr>"
    using search_read_written [OF assms(3), of "set_search_data (SearchCreate_query body)
          (json_dumps (SearchCreate_issues body)) (SearchCreate_max_results body) existing"] key
    by (simp add: set_search_data_def)
  show run: "put_session_search st session_id body =
              (Inr \<lparr>SearchRead_session_id = session_id,
                    SearchRead_query = SearchCreate_query body,
                    SearchRead_issues = SearchCreate_issues body,
                    SearchRead_max_results_requested = SearchCreate_max_results body,
                    SearchRead_checked_websites_count = Search_checkedWebsitesCount existing,
                    SearchRead_last_search_cursor = Search_lastSearchCursor existing,
                    SearchRead_is_completed = (Search_completedAt existing \<noteq> None)\<rparr>,
               st\<lparr>searches :=
                    map (\<lambda>x. if Search_id x = Search_id existing
                              then x\<lparr>Search_query := SearchCreate_query body,
                                     Search_issuesFilter := json_dumps (SearchCreate_issues body),
                                     Search_maxResultsRequested := SearchCreate_max_results body\<rparr>
                              else x) (searches st),
                  journal := journal st @ [UpdateSearch (Search_id existing)]\<rparr>)"
    using assms(3) upsert_existing [OF ids assms(2) found, of body] resp
    by (simp add: put_session_search_def set_search_data_def)
  have one: "filter (\<lambda>r. Search_sessionId r = session_id) (searches st) = [existing]"
    using filter_key [OF keys mem] key by simp
  have "filter (\<lambda>r. Search_sessionId r = session_id)
          (map (\<lambda>x. if Search_id x = Search_id existing
                              then x\<lparr>Search_query := SearchCreate_query body,
                                     Search_issuesFilter := json_dumps (SearchCreate_issues body),
                                     Search_maxResultsRequested := SearchCreate_max_results body\<rparr>
                              else x) (searches st))
      = map (\<lambda>x. if Search_id x = Search_id existing
                              then x\<lparr>Search_query := SearchCreate_query body,
                                     Search_issuesFilter := json_dumps (SearchCreate_issues body),
                                     Search_maxResultsRequested := SearchCreate_max_results body\<rparr>
                              else x) (filter (\<lambda>r. Search_sessionId r = session_id) (searches st))"
    by (rule filter_map_same) simp
  then show "filter (\<lambda>r. Search_sessionId r = session_id)
               (searches (snd (put_session_search st session_id body)))
             = [existing\<lparr>Search_query := SearchCreate_query body,
                         Search_issuesFilter := json_dumps (SearchCreate_issues body),
                         Search_maxResultsRequested := SearchCreate_max_results body\<rparr>]"
    by (simp add: run one)
next
  assume none: "search_of st session_id = None"
  have "\<forall>r \<in> set (searches st). Search_sessionId r \<noteq> session_id"
    using none by (auto simp: search_of_def find_None_iff)
  then have empty: "filter (\<lambda>r. Search_sessionId r = session_id) (searches st) = []"
    by (simp add: filter_empty_conv)
  show "filter (\<lambda>r. Search_sessionId r = session_id)
               (searches (snd (put_session_search st session_id body)))
             = [\<lparr>Search_id = fresh_id (map Search_id (searches st)),
                 Search_sessionId = session_id,
                 Search_query = SearchCreate_query body,
                 Search_issuesFilter = json_dumps (SearchCreate_issues body),
                 Search_maxResultsRequested = SearchCreate_max_results body,
                 Search_status = ''pending'',
                 Search_checkedWebsitesCount = 0,
                 Search_lastSearchCursor = None,
                 Search_completedAt = None\<rparr>]"
    using assms(3) upsert_new [OF assms(2) none, of body] empty
    by (simp add: put_session_search_def)
qed


theorem put_session_search_frame_witness:
  "wf_store demo_store \<and>
   put_session_search demo_store 2
      \<lparr>SearchCreate_query = ''roofers'', SearchCreate_issues = [''slow-performance''],
       SearchCreate_max_results = 7\<rparr>
     = (Inr \<lparr>SearchRead_session_id = 2, SearchRead_query = ''roofers'',
             SearchRead_issues = [''slow-performance''],
             SearchRead_max_results_requested = 7,
             SearchRead_checked_websites_count = 5,
             SearchRead_last_search_cursor = Some ''page-2'',
             SearchRead_is_completed = True\<rparr>,
        demo_store\<lparr>searches :=
            [demo_search\<lparr>Search_query := ''roofers'',
                Search_issuesFilter := json_dumps [''slow-performance''],
                Search_maxResultsRequested := 7\<rparr>,
             \<lparr>Search_id = 2, Search_sessionId = 3, Search_query = ''bakers'',
              Search_issuesFilter = ''[]'', Search_maxResultsRequested = 5,
              Search_status = ''pending'', Search_checkedWebsitesCount = 0,
              Search_lastSearchCursor = None, Search_completedAt = None\<rparr>],
          journal := [UpdateSearch 1]\<rparr>) \<and>
   filter (\<lambda>r. Search_sessionId r = 1)
      (searches (snd (put_session_search demo_store 1
         \<lparr>SearchCreate_query = ''roofers'', SearchCreate_issues = [''slow-performance''],
          SearchCreate_max_results = 7\<rparr>)))
     = [\<lparr>Search_id = 3, Search_sessionId = 1, Search_query = ''roofers'',
         Search_issuesFilter = json_dumps [''slow-performance''],
         Search_maxResultsRequested = 7, Search_status = ''pending'',
         Search_checkedWebsitesCount = 0, Search_lastSearchCursor = None,
         Search_completedAt = None\<rparr>]"
proof -
  have ok: "list_all (\<lambda>t. t \<in> set IssueType)
      (SearchCreate_issues \<lparr>SearchCreate_query = ''roofers'',
         SearchCreate_issues = [''slow-performance''], SearchCreate_max_results = 7\<rparr>)"
    by (simp add: IssueType_def)
  have e2: "(2::int) \<in> set (map Session_id (sessions demo_store))"
    and e1: "(1::int) \<in> set (map Session_id (sessions demo_store))"
    by (simp_all add: demo_store_def)
  have s2: "search_of demo_store 2 = Some demo_search"
    and s1: "search_of demo_store 1 = None"
    by (simp_all add: search_of_def demo_store_def demo_search_def)
  have f: "fresh_id (map Search_id (searches demo_store)) = 3"
    by (simp add: fresh_id_def demo_store_def demo_search_def)
  have second: "put_session_search demo_store 2
      \<lparr>SearchCreate_query = ''roofers'', SearchCreate_issues = [''slow-performance''],
       SearchCreate_max_results = 7\<rparr>
     = (Inr \<lparr>SearchRead_session_id = 2, SearchRead_query = ''roofers'',
             SearchRead_issues = [''slow-performance''],
             SearchRead_max_results_requested = 7,
             SearchRead_checked_websites_count = 5,
             SearchRead_last_search_cursor = Some ''page-2'',
             SearchRead_is_completed = True\<rparr>,
        demo_store\<lparr>searches :=
            [demo_search\<lparr>Search_query := ''roofers'',
                Search_issuesFilter := json_dumps [''slow-performance''],
                Search_maxResultsRequested := 7\<rparr>,
             \<lparr>Search_id = 2, Search_sessionId = 3, Search_query = ''bakers'',
              Search_issuesFilter = ''[]'', Search_maxResultsRequested = 5,
              Search_status = ''pending'', Search_checkedWebsitesCount = 0,
              Search_lastSearchCursor = None, Search_completedAt = None\<rparr>],
          journal := [UpdateSearch 1]\<rparr>)"
    using put_session_search_frame [OF wf_store_demo e2 ok] s2
    by (simp add: demo_store_def demo_search_def)
  have first: "filter (\<lambda>r. Search_sessionId r = 1)
      (searches (snd (put_session_search demo_store 1
         \<lparr>SearchCreate_query = ''roofers'', SearchCreate_issues = [''slow-performance''],
          SearchCreate_max_results = 7\<rparr>)))
     = [\<lparr>Search_id = 3, Search_sessionId = 1, Search_query = ''roofers'',
         Search_issuesFilter = json_dumps [''slow-performance''],
         Search_maxResultsRequested = 7, Search_status = ''pending'',
         Search_checkedWebsitesCount = 0, Search_lastSearchCursor = None,
         Search_completedAt = None\<rparr>]"
    using put_session_search_frame [OF wf_store_demo e1 ok] s1 f
    by simp
  show ?thesis
    by (intro conjI wf_store_demo second first)
qed

text \<open>
  C2. For a result that exists under the path's session, \<^verbatim>\<open>update_session_result\<close>
  writes only the fields of the body: a body with only \<^verbatim>\<open>status\<close> changes the status
  of that row and nothing else (its tier stays), a body with only \<^verbatim>\<open>tier\<close> changes
  the tier and nothing else (its status stays), and a body with neither issues no
  statement: the store is the one before the call, and the response is the reading of
  the stored row (\<open>result_read\<close>, the response every handler builds from a row).
\<close>

theorem update_session_result_partial:
  assumes "wf_store st" and "r \<in> set (results st)"
    and "Result_id r = result_id" and "Result_sessionId r = session_id"
  shows "update_session_result st session_id result_id
           \<lparr>ResultUpdate_tier = None, ResultUpdate_status = Some s\<rparr>
         = (result_read (r\<lparr>Result_status := s\<rparr>),
            st\<lparr>results := map (\<lambda>x. if Result_id x = result_id
                                    then x\<lparr>Result_status := s\<rparr> else x) (results st),
               journal := journal st @ [UpdateResult result_id]\<rparr>)
       \<and> update_session_result st session_id result_id
           \<lparr>ResultUpdate_tier = Some t, ResultUpdate_status = None\<rparr>
         = (result_read (r\<lparr>Result_tier := t\<rparr>),
            st\<lparr>results := map (\<lambda>x. if Result_id x = result_id
                                    then x\<lparr>Result_tier := t\<rparr> else x) (results st),
               journal := journal st @ [UpdateResult result_id]\<rparr>)
       \<and> update_session_result st session_id result_id
           \<lparr>ResultUpdate_tier = None, ResultUpdate_status = None\<rparr>
         = (result_read r, st)"
proof -
  have d: "distinct (map Result_id (results st))"
    using assms(1) by (simp add: wf_store_def)
  show ?thesis
    using update_session_result_found [OF d assms(2) assms(4)] assms(3)
    by (simp add: set_result_data_def)
qed

theorem update_session_result_partial_witness:
  "wf_store demo_store \<and> demo_result \<in> set (results demo_store) \<and>
   update_session_result demo_store 2 7
       \<lparr>ResultUpdate_tier = None, ResultUpdate_status = None\<rparr>
     = (Inr \<lparr>ResultRead_id = 7, ResultRead_created_at = 22, ResultRead_session_id = 2,
          ResultRead_url = ''https://a.example/'', ResultRead_domain = ''a.example'',
          ResultRead_page_count = 4, ResultRead_tier = 2,
          ResultRead_issues_detected = [''missing-h1'', ''missing-h1''],
          ResultRead_lighthouse_json = None,
          ResultRead_contact_email = Some ''info@a.example'',
          ResultRead_status = ''pending''\<rparr>, demo_store) \<and>
   fst (update_session_result demo_store 2 7
       \<lparr>ResultUpdate_tier = None, ResultUpdate_status = Some ''error''\<rparr>)
     = Inr \<lparr>ResultRead_id = 7, ResultRead_created_at = 22, ResultRead_session_id = 2,
          ResultRead_url = ''https://a.example/'', ResultRead_domain = ''a.example'',
          ResultRead_page_count = 4, ResultRead_tier = 2,
          ResultRead_issues_detected = [''missing-h1'', ''missing-h1''],
          ResultRead_lighthouse_json = None,
          ResultRead_contact_email = Some ''info@a.example'',
          ResultRead_status = ''error''\<rparr> \<and>
   fst (update_session_result demo_store 2 7
       \<lparr>ResultUpdate_tier = Some 3.5, ResultUpdate_status = None\<rparr>)
     = Inr \<lparr>ResultRead_id = 7, ResultRead_created_at = 22, ResultRead_session_id = 2,
          ResultRead_url = ''https://a.example/'', ResultRead_domain = ''a.example'',
          ResultRead_page_count = 4, ResultRead_tier = 3.5,
          ResultRead_issues_detected = [''missing-h1'', ''missing-h1''],
          ResultRead_lighthouse_json = None,
          ResultRead_contact_email = Some ''info@a.example'',
          ResultRead_status = ''pending''\<rparr>"
proof -
  have m: "demo_result \<in> set (results demo_store)" by (simp add: demo_store_def)
  have i: "Result_id demo_result = 7" and k: "Result_sessionId demo_result = 2"
    by (simp_all add: demo_result_def)
  note run = update_session_result_partial [OF wf_store_demo m i k, of "''error''" "3.5"]
  have none: "update_session_result demo_store 2 7
       \<lparr>ResultUpdate_tier = None, ResultUpdate_status = None\<rparr>
     = (Inr \<lparr>ResultRead_id = 7, ResultRead_created_at = 22, ResultRead_session_id = 2,
          ResultRead_url = ''https://a.example/'', ResultRead_domain = ''a.example'',
          ResultRead_page_count = 4, ResultRead_tier = 2,
          ResultRead_issues_detected = [''missing-h1'', ''missing-h1''],
          ResultRead_lighthouse_json = None,
          ResultRead_contact_email = Some ''info@a.example'',
          ResultRead_status = ''pending''\<rparr>, demo_store)"
    using run by (simp add: result_read_demo)
  have status: "fst (update_session_result demo_store 2 7
       \<lparr>ResultUpdate_tier = None, ResultUpdate_status = Some ''error''\<rparr>)
     = Inr \<lparr>ResultRead_id = 7, ResultRead_created_at = 22, ResultRead_session_id = 2,
          ResultRead_url = ''https://a.example/'', ResultRead_domain = ''a.example'',
          ResultRead_page_count = 4, ResultRead_tier = 2,
          ResultRead_issues_detected = [''missing-h1'', ''missing-h1''],
          ResultRead_lighthouse_json = None,
          ResultRead_contact_email = Some ''info@a.example'',
          ResultRead_status = ''error''\<rparr>"
    using run
    by (simp add: result_read_def demo_result_def json_loads_def is_ws_def IssueType_def
        ResultStatus_def)
  have tier: "fst (update_session_result demo_store 2 7
       \<lparr>ResultUpdate_tier = Some 3.5, ResultUpdate_status = None\<rparr>)
     = Inr \<lparr>ResultRead_id = 7, ResultRead_created_at = 22, ResultRead_session_id = 2,
          ResultRead_url = ''https://a.example/'', ResultRead_domain = ''a.example'',
          ResultRead_page_count = 4, ResultRead_tier = 3.5,
          ResultRead_issues_detected = [''missing-h1'', ''missing-h1''],
          ResultRead_lighthouse_json = None,
          ResultRead_contact_email = Some ''info@a.example'',
          ResultRead_status = ''pending''\<rparr>"
    using run
    by (simp add: result_read_def demo_result_def json_loads_def is_ws_def IssueType_def
        ResultStatus_def)
  show ?thesis
    by (intro conjI wf_store_demo m none status tier)
qed

text \<open>
  C3. For every session that \<^verbatim>\<open>list_sessions\<close> returns, on a store that keeps the key
  constraints: \<^verbatim>\<open>is_configured\<close> is true exactly when a Search row exists for the
  session, and \<^verbatim>\<open>is_completed\<close> is true exactly when such a row exists and its
  \<^verbatim>\<open>completedAt\<close> is set.
\<close>

theorem list_sessions_flags:
  assumes "wf_store st" and "r \<in> set (list_sessions st offset limit)"
  shows "(SessionRead_is_configured r \<longleftrightarrow>
            (\<exists>s \<in> set (searches st). Search_sessionId s = SessionRead_id r))
       \<and> (SessionRead_is_completed r \<longleftrightarrow>
            (\<exists>s \<in> set (searches st). Search_sessionId s = SessionRead_id r
                \<and> Search_completedAt s \<noteq> None))"
proof -
  have d: "distinct (map Search_sessionId (searches st))"
    using assms(1) by (simp add: wf_store_def)
  from assms(2) obtain session where
    r: "r = session_read (session, search_of st (Session_id session))"
    by (auto simp: list_sessions_def db_session_find_many_def)
  have i: "SessionRead_id r = Session_id session"
    by (simp add: r session_read_def)
  show ?thesis
  proof (cases "search_of st (Session_id session)")
    case None
    then have "\<forall>s \<in> set (searches st). Search_sessionId s \<noteq> Session_id session"
      by (simp add: search_of_None_iff)
    then show ?thesis using None by (simp add: r session_read_def)
  next
    case (Some s)
    have s: "s \<in> set (searches st)" "Search_sessionId s = Session_id session"
      using Some search_of_iff [OF d, of "Session_id session" s] by simp_all
    have only: "s' = s"
      if "s' \<in> set (searches st)" "Search_sessionId s' = Session_id session" for s'
      using search_of_iff [OF d, of "Session_id session" s'] that Some by simp
    have conf: "SessionRead_is_configured r" and
      comp: "SessionRead_is_completed r \<longleftrightarrow> Search_completedAt s \<noteq> None"
      using Some by (simp_all add: r session_read_def)
    have "\<exists>s \<in> set (searches st). Search_sessionId s = SessionRead_id r"
      using s i by auto
    moreover have "(\<exists>s' \<in> set (searches st). Search_sessionId s' = SessionRead_id r
                \<and> Search_completedAt s' \<noteq> None) \<longleftrightarrow> Search_completedAt s \<noteq> None"
      using s i only by metis
    ultimately show ?thesis using conf comp by simp
  qed
qed


lemma list_sessions_demo:
  "list_sessions demo_store 0 50 =
     [\<lparr>SessionRead_id = 3, SessionRead_created_at = 30, SessionRead_name = ''Untitled session'',
       SessionRead_is_configured = True, SessionRead_is_completed = False\<rparr>,
      \<lparr>SessionRead_id = 2, SessionRead_created_at = 20, SessionRead_name = ''Plumbers'',
       SessionRead_is_configured = True, SessionRead_is_completed = True\<rparr>,
      \<lparr>SessionRead_id = 1, SessionRead_created_at = 10, SessionRead_name = ''Untitled session'',
       SessionRead_is_configured = False, SessionRead_is_completed = False\<rparr>]"
proof -
  have p: "page Session_createdAt 0 50 (sessions demo_store) =
     [\<lparr>Session_id = 3, Session_createdAt = 30, Session_name = None\<rparr>,
      \<lparr>Session_id = 2, Session_createdAt = 20, Session_name = Some ''Plumbers''\<rparr>,
      \<lparr>Session_id = 1, Session_createdAt = 10, Session_name = None\<rparr>]"
    by (simp add: page_def demo_store_def)
  have s1: "search_of demo_store 1 = None"
    and s2: "search_of demo_store 2 = Some demo_search"
    and s3: "search_of demo_store 3 =
      Some \<lparr>Search_id = 2, Search_sessionId = 3, Search_query = ''bakers'',
          Search_issuesFilter = ''[]'', Search_maxResultsRequested = 5,
          Search_status = ''pending'', Search_checkedWebsitesCount = 0,
          Search_lastSearchCursor = None, Search_completedAt = None\<rparr>"
    by (simp_all add: search_of_def demo_store_def demo_search_def)
  have c: "Search_completedAt demo_search = Some 25" by (simp add: demo_search_def)
  show ?thesis
    by (simp add: list_sessions_def db_session_find_many_def p s1 s2 s3 c session_read_def
        getattr_name_def)
qed

theorem list_sessions_flags_witness:
  "wf_store demo_store \<and>
   \<lparr>SessionRead_id = 2, SessionRead_created_at = 20, SessionRead_name = ''Plumbers'',
       SessionRead_is_configured = True, SessionRead_is_completed = True\<rparr>
     \<in> set (list_sessions demo_store 0 50) \<and>
   list_ex (\<lambda>s. Search_sessionId s = 2 \<and> Search_completedAt s \<noteq> None) (searches demo_store)"
proof -
  have m: "\<lparr>SessionRead_id = 2, SessionRead_created_at = 20, SessionRead_name = ''Plumbers'',
       SessionRead_is_configured = True, SessionRead_is_completed = True\<rparr>
       \<in> set (list_sessions demo_store 0 50)"
    by (simp add: list_sessions_demo)
  have "list_ex (\<lambda>s. Search_sessionId s = 2 \<and> Search_completedAt s \<noteq> None) (searches demo_store)"
    using list_sessions_flags [OF wf_store_demo m] by (simp add: list_ex_iff)
  then show ?thesis
    using wf_store_demo m by blast
qed

text \<open>
  C4. A \<^verbatim>\<open>PUT /sessions/{id}/search\<close> whose \<^verbatim>\<open>issues\<close> holds a tag outside
  \<^verbatim>\<open>seo-issues\<close>, \<^verbatim>\<open>missing-title\<close>, \<^verbatim>\<open>missing-meta-description\<close>, \<^verbatim>\<open>missing-h1\<close>,
  \<^verbatim>\<open>slow-performance\<close> fails as a request-validation error and writes nothing: the
  store, its journal included, is the one before the call.
\<close>

theorem put_session_search_unknown_tag:
  "t \<in> set (SearchCreate_issues body) \<Longrightarrow>
   t \<notin> {''seo-issues'', ''missing-title'', ''missing-meta-description'', ''missing-h1'',
         ''slow-performance''} \<Longrightarrow>
   put_session_search st session_id body = (Inl ValidationError, st)"
proof -
  assume mem: "t \<in> set (SearchCreate_issues body)"
    and out: "t \<notin> {''seo-issues'', ''missing-title'', ''missing-meta-description'',
         ''missing-h1'', ''slow-performance''}"
  from out have "t \<notin> set IssueType" by (simp add: IssueType_def)
  with mem have "\<not> list_all (\<lambda>t. t \<in> set IssueType) (SearchCreate_issues body)"
    by (auto simp: list_all_iff)
  then show ?thesis by (simp add: put_session_search_def)
qed

theorem put_session_search_unknown_tag_witness:
  "put_session_search demo_store 2
     \<lparr>SearchCreate_query = ''plumbers'', SearchCreate_issues = [''missing-h1'', ''broken-links''],
      SearchCreate_max_results = 20\<rparr> = (Inl ValidationError, demo_store)"
  using put_session_search_unknown_tag [of "''broken-links''"
      "\<lparr>SearchCreate_query = ''plumbers'', SearchCreate_issues = [''missing-h1'', ''broken-links''],
      SearchCreate_max_results = 20\<rparr>" demo_store 2]
  by simp

text \<open>
  C5. When no result has the given \<^verbatim>\<open>result_id\<close>, or the one that has it belongs to
  another session than the path's, \<^verbatim>\<open>update_session_result\<close> fails with
  \<open>ResultNotFound\<close> (404) and writes nothing, whatever the body.
\<close>

theorem update_session_result_not_found:
  assumes "wf_store st"
    and "(\<forall>r \<in> set (results st). Result_id r \<noteq> result_id) \<or>
         (\<exists>r \<in> set (results st). Result_id r = result_id \<and> Result_sessionId r \<noteq> session_id)"
  shows "update_session_result st session_id result_id body = (Inl ResultNotFound, st)"
  using assms(2)
proof
  assume "\<forall>r \<in> set (results st). Result_id r \<noteq> result_id"
  then have "find (\<lambda>r. Result_id r = result_id) (results st) = None"
    by (intro find_none) simp
  then show ?thesis
    by (simp add: update_session_result_def db_sessionresult_find_unique_def)
next
  assume "\<exists>r \<in> set (results st). Result_id r = result_id \<and> Result_sessionId r \<noteq> session_id"
  then obtain r where r: "r \<in> set (results st)" "Result_id r = result_id"
      "Result_sessionId r \<noteq> session_id"
    by blast
  have "distinct (map Result_id (results st))"
    using assms(1) by (simp add: wf_store_def)
  then have "find (\<lambda>x. Result_id x = Result_id r) (results st) = Some r"
    using r(1) by (rule find_key)
  then show ?thesis
    using r(2,3) by (simp add: update_session_result_def db_sessionresult_find_unique_def)
qed

theorem update_session_result_not_found_witness:
  "wf_store demo_store \<and>
   update_session_result demo_store 3 7
       \<lparr>ResultUpdate_tier = Some 1, ResultUpdate_status = Some ''completed''\<rparr>
     = (Inl ResultNotFound, demo_store) \<and>
   update_session_result demo_store 2 999
       \<lparr>ResultUpdate_tier = None, ResultUpdate_status = Some ''completed''\<rparr>
     = (Inl ResultNotFound, demo_store)"
proof -
  have a: "(\<forall>r \<in> set (results demo_store). Result_id r \<noteq> 7) \<or>
         (\<exists>r \<in> set (results demo_store). Result_id r = 7 \<and> Result_sessionId r \<noteq> 3)"
    by (simp add: demo_store_def demo_result_def)
  have b: "(\<forall>r \<in> set (results demo_store). Result_id r \<noteq> 999) \<or>
         (\<exists>r \<in> set (results demo_store). Result_id r = 999 \<and> Result_sessionId r \<noteq> 2)"
    by (simp add: demo_store_def demo_result_def)
  show ?thesis
    using update_session_result_not_found [OF wf_store_demo a]
      update_session_result_not_found [OF wf_store_demo b]
    by (simp add: wf_store_demo)
qed

text \<open>
  C6. For every sequence of issue tags that the upsert accepts, duplicates and order
  included, the upsert succeeds, its response carries exactly the sequence written, and
  \<^verbatim>\<open>get_session_search\<close> on the store it leaves returns the same response: nothing is
  deduplicated or reordered on the way through \<^verbatim>\<open>json.dumps\<close> and \<^verbatim>\<open>json.loads\<close>.
\<close>

theorem put_then_get_issues:
  assumes "wf_store st" and "session_id \<in> set (map Session_id (sessions st))"
    and "list_all (\<lambda>t. t \<in> set IssueType) (SearchCreate_issues body)"
  shows "\<exists>resp st'. put_session_search st session_id body = (Inr resp, st')
           \<and> SearchRead_issues resp = SearchCreate_issues body
           \<and> get_session_search st' session_id = Inr resp"
proof (cases "search_of st session_id")
  case None
  let ?new = "\<lparr>Search_id = fresh_id (map Search_id (searches st)),
         Search_sessionId = session_id,
         Search_query = SearchCreate_query body,
         Search_issuesFilter = json_dumps (SearchCreate_issues body),
         Search_maxResultsRequested = SearchCreate_max_results body,
         Search_status = ''pending'',
         Search_checkedWebsitesCount = 0,
         Search_lastSearchCursor = None,
         Search_completedAt = None\<rparr>"
  let ?st' = "st\<lparr>searches := searches st @ [?new],
         journal := journal st @ [InsertSearch (fresh_id (map Search_id (searches st)))]\<rparr>"
  obtain resp where resp: "search_read ?new = Inr resp"
      "SearchRead_issues resp = SearchCreate_issues body"
    using search_read_written [OF assms(3), of ?new] by simp
  have "put_session_search st session_id body = (Inr resp, ?st')"
    using assms(3) upsert_new [OF assms(2) None, of body] resp(1)
    by (simp add: put_session_search_def)
  moreover have "get_session_search ?st' session_id = Inr resp"
    using search_of_after_create [OF None, where new = ?new] resp(1)
    by (simp add: get_session_search_def db_sessionsearch_find_unique_def)
  ultimately show ?thesis using resp(2) by blast
next
  case (Some existing)
  have ids: "distinct (map Search_id (searches st))"
    using assms(1) by (simp add: wf_store_def)
  let ?row = "set_search_data (SearchCreate_query body)
          (json_dumps (SearchCreate_issues body)) (SearchCreate_max_results body) existing"
  let ?st' = "st\<lparr>searches :=
           map (\<lambda>x. if Search_id x = Search_id existing
                     then set_search_data (SearchCreate_query body)
                            (json_dumps (SearchCreate_issues body))
                            (SearchCreate_max_results body) x
                     else x) (searches st),
         journal := journal st @ [UpdateSearch (Search_id existing)]\<rparr>"
  obtain resp where resp: "search_read ?row = Inr resp"
      "SearchRead_issues resp = SearchCreate_issues body"
    using search_read_written [OF assms(3), of ?row] by (simp add: set_search_data_def)
  have "put_session_search st session_id body = (Inr resp, ?st')"
    using assms(3) upsert_existing [OF ids assms(2) Some, of body] resp(1)
    by (simp add: put_session_search_def)
  moreover have "get_session_search ?st' session_id = Inr resp"
    using search_of_after_update [OF Some, where i = "Search_id existing"] resp(1)
    by (simp add: get_session_search_def db_sessionsearch_find_unique_def)
  ultimately show ?thesis using resp(2) by blast
qed

theorem put_then_get_issues_witness:
  "\<exists>resp st'. put_session_search demo_store 3
        \<lparr>SearchCreate_query = ''bakers'',
         SearchCreate_issues = [''missing-h1'', ''seo-issues'', ''missing-h1''],
         SearchCreate_max_results = 5\<rparr> = (Inr resp, st')
      \<and> SearchRead_issues resp = [''missing-h1'', ''seo-issues'', ''missing-h1'']
      \<and> get_session_search st' 3 = Inr resp"
proof -
  have ok: "list_all (\<lambda>t. t \<in> set IssueType)
      (SearchCreate_issues \<lparr>SearchCreate_query = ''bakers'',
         SearchCreate_issues = [''missing-h1'', ''seo-issues'', ''missing-h1''],
         SearchCreate_max_results = 5\<rparr>)"
    by (simp add: IssueType_def)
  have e3: "(3::int) \<in> set (map Session_id (sessions demo_store))"
    by (simp add: demo_store_def)
  show ?thesis
    using put_then_get_issues [OF wf_store_demo e3 ok] by simp
qed

text \<open>
  C7. \<^verbatim>\<open>list_session_results\<close> makes no existence check on the session: its answer
  does not depend on the table of sessions at all, and when the session does not exist,
  or has no results, or \<^verbatim>\<open>offset\<close> is not below the number of its results, the answer
  is the empty sequence and not an error. (That an unknown session has no results is the
  foreign key of \<^verbatim>\<open>SessionResult\<close>, part of \<open>wf_store\<close>.)
\<close>

theorem list_session_results_empty:
  assumes "wf_store st"
    and "session_id \<notin> set (map Session_id (sessions st))
       \<or> (\<forall>r \<in> set (results st). Result_sessionId r \<noteq> session_id)
       \<or> length (filter (\<lambda>r. Result_sessionId r = session_id) (results st)) \<le> offset"
  shows "list_session_results st session_id offset limit = Inr []
       \<and> list_session_results (st\<lparr>sessions := other\<rparr>) session_id offset limit
           = list_session_results st session_id offset limit"
proof -
  have fk: "\<forall>r \<in> set (results st). Result_sessionId r \<in> set (map Session_id (sessions st))"
    using assms(1) by (simp add: wf_store_def list_all_iff)
  have "length (filter (\<lambda>r. Result_sessionId r = session_id) (results st)) \<le> offset"
  proof -
    consider (unknown) "session_id \<notin> set (map Session_id (sessions st))"
      | (none) "\<forall>r \<in> set (results st). Result_sessionId r \<noteq> session_id"
      | (beyond) "length (filter (\<lambda>r. Result_sessionId r = session_id) (results st)) \<le> offset"
      using assms(2) by blast
    then show ?thesis
    proof cases
      case unknown
      then have "\<forall>r \<in> set (results st). Result_sessionId r \<noteq> session_id"
        using fk by blast
      then have "filter (\<lambda>r. Result_sessionId r = session_id) (results st) = []"
        by (simp add: filter_empty_conv)
      then show ?thesis by simp
    next
      case none
      then have "filter (\<lambda>r. Result_sessionId r = session_id) (results st) = []"
        by (simp add: filter_empty_conv)
      then show ?thesis by simp
    next
      case beyond
      then show ?thesis .
    qed
  qed
  then have "db_sessionresult_find_many st session_id offset limit = []"
    unfolding db_sessionresult_find_many_def by (rule page_beyond)
  then have "list_session_results st session_id offset limit = Inr []"
    by (simp add: list_session_results_def)
  moreover have "list_session_results (st\<lparr>sessions := other\<rparr>) session_id offset limit
           = list_session_results st session_id offset limit"
    by (simp add: list_session_results_def db_sessionresult_find_many_def)
  ultimately show ?thesis by simp
qed

theorem list_session_results_empty_witness:
  "wf_store demo_store \<and> (99::int) \<notin> set (map Session_id (sessions demo_store)) \<and>
   list_session_results demo_store 99 0 50 = Inr [] \<and>
   list_session_results demo_store 1 0 50 = Inr [] \<and>
   length (filter (\<lambda>r. Result_sessionId r = 2) (results demo_store)) = 2 \<and>
   list_session_results demo_store 2 2 50 = Inr []"
proof -
  have a: "(99::int) \<notin> set (map Session_id (sessions demo_store))"
    by (simp add: demo_store_def)
  have b: "\<forall>r \<in> set (results demo_store). Result_sessionId r \<noteq> 1"
    by (simp add: demo_store_def demo_result_def)
  have c: "length (filter (\<lambda>r. Result_sessionId r = 2) (results demo_store)) = 2"
    by (simp add: demo_store_def demo_result_def)
  have r1: "list_session_results demo_store 99 0 50 = Inr []"
    using list_session_results_empty [where st = demo_store and session_id = 99 and offset = 0
        and limit = 50 and other = "[]", OF wf_store_demo] a by simp
  have r2: "list_session_results demo_store 1 0 50 = Inr []"
    using list_session_results_empty [where st = demo_store and session_id = 1 and offset = 0
        and limit = 50 and other = "[]", OF wf_store_demo] b by simp
  have r3: "list_session_results demo_store 2 2 50 = Inr []"
    using list_session_results_empty [where st = demo_store and session_id = 2 and offset = 2
        and limit = 50 and other = "[]", OF wf_store_demo] c by simp
  show ?thesis
    by (intro conjI wf_store_demo a r1 r2 c r3)
qed

text \<open>
  C8. \<^verbatim>\<open>get_session_search\<close> on a session that has no Search row fails with
  \<open>SearchNotConfigured\<close> (the 404 "Search not configured for session"): it answers an
  error, never a Search object, empty or default.
\<close>

theorem get_session_search_not_configured:
  "\<forall>r \<in> set (searches st). Search_sessionId r \<noteq> session_id \<Longrightarrow>
   get_session_search st session_id = Inl SearchNotConfigured"
proof -
  assume "\<forall>r \<in> set (searches st). Search_sessionId r \<noteq> session_id"
  then have "search_of st session_id = None"
    unfolding search_of_def by (intro find_none) simp
  then show ?thesis
    by (simp add: get_session_search_def db_sessionsearch_find_unique_def)
qed

theorem get_session_search_not_configured_witness:
  "list_all (\<lambda>r. Search_sessionId r \<noteq> 1) (searches demo_store) \<and>
   get_session_search demo_store 1 = Inl SearchNotConfigured"
proof -
  have h: "\<forall>r \<in> set (searches demo_store). Search_sessionId r \<noteq> 1"
    by (simp add: demo_store_def demo_search_def)
  show ?thesis
    using h get_session_search_not_configured [OF h] by (simp add: list_all_iff)
qed

text \<open>
  C9. \<^verbatim>\<open>create_session\<close> returns a Session whose \<^verbatim>\<open>id\<close> is the key of no session
  already in the store, with \<^verbatim>\<open>is_configured\<close> and \<^verbatim>\<open>is_completed\<close> both false; the
  new key joins the keys of the table, so that the next call avoids it too.
\<close>

theorem create_session_fresh:
  "create_session default_name now st = (r, st') \<Longrightarrow>
   SessionRead_id r \<notin> set (map Session_id (sessions st)) \<and>
   \<not> SessionRead_is_configured r \<and> \<not> SessionRead_is_completed r \<and>
   map Session_id (sessions st') = map Session_id (sessions st) @ [SessionRead_id r]"
  using fresh_id_new [of "map Session_id (sessions st)"]
  by (auto simp: create_session_def db_session_create_def Let_def)

theorem create_session_fresh_witness:
  "create_session None 40 demo_store =
     (\<lparr>SessionRead_id = 4, SessionRead_created_at = 40, SessionRead_name = ''Untitled session'',
       SessionRead_is_configured = False, SessionRead_is_completed = False\<rparr>,
      demo_store\<lparr>sessions := sessions demo_store @
          [\<lparr>Session_id = 4, Session_createdAt = 40, Session_name = None\<rparr>],
        journal := [InsertSession 4]\<rparr>) \<and>
   (4::int) \<notin> set (map Session_id (sessions demo_store))"
proof -
  have run: "create_session None 40 demo_store =
     (\<lparr>SessionRead_id = 4, SessionRead_created_at = 40, SessionRead_name = ''Untitled session'',
       SessionRead_is_configured = False, SessionRead_is_completed = False\<rparr>,
      demo_store\<lparr>sessions := sessions demo_store @
          [\<lparr>Session_id = 4, Session_createdAt = 40, Session_name = None\<rparr>],
        journal := [InsertSession 4]\<rparr>)"
    by (simp add: create_session_def db_session_create_def Let_def fresh_id_def
        getattr_name_def demo_store_def)
  show ?thesis
    using run create_session_fresh [OF run] by simp
qed

text \<open>
  C10. In the patch operation a body field sent as JSON \<^verbatim>\<open>null\<close> is the same request
  as a body without the field, for \<^verbatim>\<open>tier\<close> and for \<^verbatim>\<open>status\<close>, on every store and
  every path: same response, same store afterwards. So neither column can be cleared
  through this operation: a patch whose \<^verbatim>\<open>tier\<close> is \<^verbatim>\<open>null\<close> leaves the tier of every
  stored row as it was, and a patch whose \<^verbatim>\<open>status\<close> is \<^verbatim>\<open>null\<close> leaves every status.
\<close>

theorem patch_null_is_missing:
  "patch_session_result st session_id result_id (raw\<lparr>json_tier := Null\<rparr>)
     = patch_session_result st session_id result_id (raw\<lparr>json_tier := Missing\<rparr>)
   \<and> patch_session_result st session_id result_id (raw\<lparr>json_status := Null\<rparr>)
     = patch_session_result st session_id result_id (raw\<lparr>json_status := Missing\<rparr>)
   \<and> map Result_tier
         (results (snd (patch_session_result st session_id result_id (raw\<lparr>json_tier := Null\<rparr>))))
     = map Result_tier (results st)
   \<and> map Result_status
         (results (snd (patch_session_result st session_id result_id (raw\<lparr>json_status := Null\<rparr>))))
     = map Result_status (results st)"
proof (intro conjI)
  show "patch_session_result st session_id result_id (raw\<lparr>json_tier := Null\<rparr>)
     = patch_session_result st session_id result_id (raw\<lparr>json_tier := Missing\<rparr>)"
    by (simp only: patch_session_result_def parse_tier_null)
  show "patch_session_result st session_id result_id (raw\<lparr>json_status := Null\<rparr>)
     = patch_session_result st session_id result_id (raw\<lparr>json_status := Missing\<rparr>)"
    by (simp only: patch_session_result_def parse_status_null)
  show "map Result_tier
         (results (snd (patch_session_result st session_id result_id (raw\<lparr>json_tier := Null\<rparr>))))
     = map Result_tier (results st)"
  proof (cases "parse_SessionResultUpdate (raw\<lparr>json_tier := Null\<rparr>)")
    case (Inl e)
    then show ?thesis by (simp add: patch_session_result_def)
  next
    case (Inr body)
    then show ?thesis
      using update_keeps_tiers [OF parse_tier_null_body [OF Inr]]
      by (simp add: patch_session_result_def)
  qed
  show "map Result_status
         (results (snd (patch_session_result st session_id result_id (raw\<lparr>json_status := Null\<rparr>))))
     = map Result_status (results st)"
  proof (cases "parse_SessionResultUpdate (raw\<lparr>json_status := Null\<rparr>)")
    case (Inl e)
    then show ?thesis by (simp add: patch_session_result_def)
  next
    case (Inr body)
    then show ?thesis
      using update_keeps_statuses [OF parse_status_null_body [OF Inr]]
      by (simp add: patch_session_result_def)
  qed
qed

theorem patch_null_is_missing_witness:
  "patch_session_result demo_store 2 7 \<lparr>json_tier = Null, json_status = Value ''completed''\<rparr>
     = patch_session_result demo_store 2 7 \<lparr>json_tier = Missing, json_status = Value ''completed''\<rparr>
   \<and> map Result_tier (results (snd (patch_session_result demo_store 2 7
         \<lparr>json_tier = Null, json_status = Value ''completed''\<rparr>))) = [2, 1]"
proof -
  have t: "map Result_tier (results demo_store) = [2, 1]"
    by (simp add: demo_store_def demo_result_def)
  have r: "\<lparr>json_tier = Value 9, json_status = Value ''completed''\<rparr>\<lparr>json_tier := Null\<rparr>
      = \<lparr>json_tier = Null, json_status = Value ''completed''\<rparr>"
    "\<lparr>json_tier = Value 9, json_status = Value ''completed''\<rparr>\<lparr>json_tier := Missing\<rparr>
      = \<lparr>json_tier = Missing, json_status = Value ''completed''\<rparr>"
    by simp_all
  show ?thesis
    using patch_null_is_missing [of demo_store 2 7
        "\<lparr>json_tier = Value 9, json_status = Value ''completed''\<rparr>"]
    unfolding r t by blast
qed

end
